theory Spec2Isabelle
  imports Complex_Main
begin

section \<open>Python values\<close>

text \<open>
  The client passes the provider's JSON through without looking inside it, so the model
  keeps the values as Python has them after \<^verbatim>\<open>response.json()\<close>: \<^verbatim>\<open>None\<close>,
  booleans, integers, floats (a finite float is the real number it denotes; Python's JSON
  reader also accepts the literals \<^verbatim>\<open>Infinity\<close>, \<^verbatim>\<open>-Infinity\<close> and \<^verbatim>\<open>NaN\<close>),
  strings, lists and dicts. A dict is the list of its items in insertion order; its keys
  are strings, as every key of a JSON object is.
\<close>

datatype pyfloat = Fin real | PosInf | NegInf | NaN

datatype pyval =
    PNone
  | PBool bool
  | PInt int
  | PFloat pyfloat
  | PStr string
  | PList "pyval list"
  | PDict "(string \<times> pyval) list"

text \<open>Truthiness, as \<^verbatim>\<open>if error:\<close> tests it.\<close>

fun py_truthy :: "pyval \<Rightarrow> bool" where
  "py_truthy PNone = False"
| "py_truthy (PBool b) = b"
| "py_truthy (PInt i) = (i \<noteq> 0)"
| "py_truthy (PFloat f) = (f \<noteq> Fin 0)"
| "py_truthy (PStr s) = (s \<noteq> [])"
| "py_truthy (PList xs) = (xs \<noteq> [])"
| "py_truthy (PDict kvs) = (kvs \<noteq> [])"

section \<open>Exceptions\<close>

text \<open>
  An exception is its class and the text \<^verbatim>\<open>str(e)\<close>. The classes are the ones the two
  \<^verbatim>\<open>except\<close> clauses tell apart: the subclasses of
  \<^verbatim>\<open>requests.exceptions.RequestException\<close>, the other subclasses of \<^verbatim>\<open>Exception\<close>,
  and what is a \<^verbatim>\<open>BaseException\<close> only (\<^verbatim>\<open>KeyboardInterrupt\<close>, \<^verbatim>\<open>SystemExit\<close>),
  which no clause of the source catches.
\<close>

datatype exc_class =
    ConnectionError          \<comment> \<open>requests: DNS failure, connection refused\<close>
  | Timeout                  \<comment> \<open>requests: connect or read timeout\<close>
  | HTTPError                \<comment> \<open>requests: raised by \<^verbatim>\<open>raise_for_status\<close>\<close>
  | RequestsJSONDecodeError  \<comment> \<open>requests 2.27 and later: \<^verbatim>\<open>requests.exceptions.JSONDecodeError\<close>\<close>
  | OtherRequestException    \<comment> \<open>any other subclass of \<^verbatim>\<open>RequestException\<close>\<close>
  | ValueError               \<comment> \<open>with \<^verbatim>\<open>json.JSONDecodeError\<close>, its subclass\<close>
  | KeyError
  | TypeError
  | OtherException           \<comment> \<open>any other subclass of \<^verbatim>\<open>Exception\<close>\<close>
  | BaseExceptionOnly        \<comment> \<open>\<^verbatim>\<open>KeyboardInterrupt\<close>, \<^verbatim>\<open>SystemExit\<close>, \<^verbatim>\<open>GeneratorExit\<close>\<close>

datatype exn = Exn exc_class string

fun exc_class_of :: "exn \<Rightarrow> exc_class" where
  "exc_class_of (Exn c m) = c"

fun str_exn :: "exn \<Rightarrow> string" where
  "str_exn (Exn c m) = m"

fun is_RequestException :: "exc_class \<Rightarrow> bool" where
  "is_RequestException ConnectionError = True"
| "is_RequestException Timeout = True"
| "is_RequestException HTTPError = True"
| "is_RequestException RequestsJSONDecodeError = True"
| "is_RequestException OtherRequestException = True"
| "is_RequestException ValueError = False"
| "is_RequestException KeyError = False"
| "is_RequestException TypeError = False"
| "is_RequestException OtherException = False"
| "is_RequestException BaseExceptionOnly = False"

fun is_Exception :: "exc_class \<Rightarrow> bool" where
  "is_Exception BaseExceptionOnly = False"
| "is_Exception c = True"

text \<open>
  A Python computation either raises (\<open>Inl\<close>) or returns (\<open>Inr\<close>); \<open>and_then\<close> is the
  sequencing of two statements inside a \<^verbatim>\<open>try\<close> body.
\<close>

type_synonym 'a res = "exn + 'a"

definition and_then :: "'a res \<Rightarrow> ('a \<Rightarrow> 'b res) \<Rightarrow> 'b res" where
  "and_then r f = (case r of Inl e \<Rightarrow> Inl e | Inr x \<Rightarrow> f x)"

section \<open>Subscripting\<close>

text \<open>
  \<^verbatim>\<open>repr\<close> of a string whose code points are below 256, as CPython writes it: the quote
  is \<^verbatim>\<open>'\<close> unless the string has a \<^verbatim>\<open>'\<close> and no \<^verbatim>\<open>"\<close>; the quote and the backslash
  are escaped, tab, newline and carriage return are written \<^verbatim>\<open>\t\<close>, \<^verbatim>\<open>\n\<close>, \<^verbatim>\<open>\r\<close>,
  and a code point that is not printable is written \<^verbatim>\<open>\xhh\<close>.
\<close>

definition hex_digit :: "nat \<Rightarrow> char" where
  "hex_digit n = (''0123456789abcdef'') ! (n mod 16)"

definition py_printable :: "char \<Rightarrow> bool" where
  "py_printable c =
     (let n = of_char c :: nat
      in (32 \<le> n \<and> n < 127) \<or> (161 \<le> n \<and> n \<noteq> 173))"

definition repr_char :: "char \<Rightarrow> char \<Rightarrow> string" where
  "repr_char q c =
     (if c = q \<or> c = CHR 0x5C then [CHR 0x5C, c]
      else if c = CHR 0x09 then [CHR 0x5C, CHR ''t'']
      else if c = CHR 0x0A then [CHR 0x5C, CHR ''n'']
      else if c = CHR 0x0D then [CHR 0x5C, CHR ''r'']
      else if py_printable c then [c]
      else [CHR 0x5C, CHR ''x'', hex_digit (of_char c div 16), hex_digit (of_char c)])"

definition py_repr_str :: "string \<Rightarrow> string" where
  "py_repr_str s =
     (let q = (if CHR 0x27 \<in> set s \<and> CHR 0x22 \<notin> set s then CHR 0x22 else CHR 0x27)
      in q # concat (map (repr_char q) s) @ [q])"

text \<open>
  \<^verbatim>\<open>v[k]\<close> for a string \<open>k\<close>: a dict gives the value or raises \<^verbatim>\<open>KeyError(k)\<close>, whose
  \<^verbatim>\<open>str\<close> is \<^verbatim>\<open>repr(k)\<close>; every other JSON value raises \<^verbatim>\<open>TypeError\<close>, with the
  text of CPython 3.11 and later.
\<close>

fun subscript :: "pyval \<Rightarrow> string \<Rightarrow> pyval res" where
  "subscript (PDict kvs) k =
     (case map_of kvs k of
        Some v \<Rightarrow> Inr v
      | None \<Rightarrow> Inl (Exn KeyError (py_repr_str k)))"
| "subscript PNone k = Inl (Exn TypeError (CHR 0x27 # ''NoneType'' @ CHR 0x27 # '' object is not subscriptable''))"
| "subscript (PBool b) k = Inl (Exn TypeError (CHR 0x27 # ''bool'' @ CHR 0x27 # '' object is not subscriptable''))"
| "subscript (PInt i) k = Inl (Exn TypeError (CHR 0x27 # ''int'' @ CHR 0x27 # '' object is not subscriptable''))"
| "subscript (PFloat f) k = Inl (Exn TypeError (CHR 0x27 # ''float'' @ CHR 0x27 # '' object is not subscriptable''))"
| "subscript (PStr s) k = Inl (Exn TypeError (''string indices must be integers, not '' @ CHR 0x27 # ''str'' @ [CHR 0x27]))"
| "subscript (PList xs) k = Inl (Exn TypeError ''list indices must be integers or slices, not str'')"

section \<open>The HTTP library and the clock\<close>

text \<open>
  \<^verbatim>\<open>requests\<close> is not part of the repository. A request is what the source hands to
  \<^verbatim>\<open>requests.get\<close>. A response is what the source asks of it: the status code, and the
  outcome of \<^verbatim>\<open>response.json()\<close>, which is the parsed body or the exception the library
  raises on a body that is not JSON (its class depends on the library's version, so it
  is part of the outcome). \<open>http_error_msg\<close> is the text the library builds for the
  \<^verbatim>\<open>HTTPError\<close> of this response.
\<close>

record request =
  url :: string
  params :: "(string \<times> string) list"
  timeout :: "nat option"

record response =
  status_code :: nat
  http_error_msg :: string
  json_result :: "pyval res"

text \<open>
  \<^verbatim>\<open>Response.raise_for_status\<close>, as the library defines it: it raises \<^verbatim>\<open>HTTPError\<close> for
  a status from 400 to 599 and returns for every other status.
\<close>

definition raise_for_status :: "response \<Rightarrow> unit res" where
  "raise_for_status r =
     (if 400 \<le> status_code r \<and> status_code r < 600
      then Inl (Exn HTTPError (http_error_msg r))
      else Inr ())"

text \<open>
  The world at one call: what \<^verbatim>\<open>requests.get\<close> does with a request (it raises or gives
  a response), the text of \<^verbatim>\<open>datetime.now().strftime('%Y-%m-%d %H:%M:%S')\<close>, and
  \<^verbatim>\<open>str\<close> of the amount, which the f-string of \<^verbatim>\<open>get_conversion\<close> interpolates (for a
  float it is the shortest text that reads back as the same float).
\<close>

record world =
  requests_get :: "request \<Rightarrow> response res"
  now_text :: string
  str_amount :: "pyval \<Rightarrow> string"

section \<open>CurrencyTracker\<close>

record CurrencyTracker =
  api_url :: string
  base_currency :: string
  history :: "pyval list"

definition init :: CurrencyTracker where
  "init = \<lparr>api_url = ''https://api.frankfurter.app/latest'',
           base_currency = ''USD'',
           history = []\<rparr>"

text \<open>
  Every method takes the object and gives it back beside its outcome, so that what a
  method does to the object is part of the model.
\<close>

text \<open>
  \<^verbatim>\<open>get_exchange_rates\<close>. \<open>rates_request\<close> is the call of line 26, \<open>rates_body\<close> the
  body of the \<^verbatim>\<open>try\<close> (lines 25 to 38): the dict literal evaluates
  \<^verbatim>\<open>data['base']\<close>, \<^verbatim>\<open>data['date']\<close>, the timestamp and \<^verbatim>\<open>data['rates']\<close> in this
  order, so the first missing key is the one reported. The two \<^verbatim>\<open>except\<close> clauses are
  tried in the order of the source; an exception neither of them matches leaves the method.
\<close>

definition rates_request :: "CurrencyTracker \<Rightarrow> string \<Rightarrow> request" where
  "rates_request self base =
     \<lparr>url = api_url self, params = [(''from'', base)], timeout = Some 10\<rparr>"

definition rates_body :: "world \<Rightarrow> CurrencyTracker \<Rightarrow> string \<Rightarrow> (pyval \<times> pyval) res" where
  "rates_body w self base =
     and_then (requests_get w (rates_request self base)) (\<lambda>response.
     and_then (raise_for_status response) (\<lambda>_.
     and_then (json_result response) (\<lambda>data.
     and_then (subscript data ''base'') (\<lambda>b.
     and_then (subscript data ''date'') (\<lambda>d.
     and_then (subscript data ''rates'') (\<lambda>r.
       Inr (PDict [(''base'', b), (''date'', d),
                   (''timestamp'', PStr (now_text w)), (''rates'', r)],
            PNone)))))))"

definition get_exchange_rates ::
  "world \<Rightarrow> string \<Rightarrow> CurrencyTracker \<Rightarrow> (pyval \<times> pyval) res \<times> CurrencyTracker" where
  "get_exchange_rates w base self =
     (case rates_body w self base of
        Inr t \<Rightarrow> (Inr t, self)
      | Inl e \<Rightarrow>
          if is_RequestException (exc_class_of e)
          then (Inr (PNone, PStr (''Network error: '' @ str_exn e)), self)
          else if is_Exception (exc_class_of e)
          then (Inr (PNone, PStr (''Error: '' @ str_exn e)), self)
          else (Inl e, self))"

text \<open>
  \<^verbatim>\<open>get_conversion\<close>. \<open>conversion_request\<close> is the call of line 49 with the URL of
  line 48, \<open>conversion_body\<close> the body of the \<^verbatim>\<open>try\<close> (lines 48 to 55); its one
  clause is \<^verbatim>\<open>except Exception\<close>.
\<close>

definition conversion_request :: "world \<Rightarrow> pyval \<Rightarrow> string \<Rightarrow> string \<Rightarrow> request" where
  "conversion_request w amount from_currency to_currency =
     \<lparr>url = ''https://api.frankfurter.app/latest?amount='' @ str_amount w amount
              @ ''&from='' @ from_currency @ ''&to='' @ to_currency,
      params = [],
      timeout = Some 10\<rparr>"

definition conversion_body ::
  "world \<Rightarrow> pyval \<Rightarrow> string \<Rightarrow> string \<Rightarrow> (pyval \<times> pyval) res" where
  "conversion_body w amount from_currency to_currency =
     and_then (requests_get w (conversion_request w amount from_currency to_currency)) (\<lambda>response.
     and_then (raise_for_status response) (\<lambda>_.
     and_then (json_result response) (\<lambda>data.
     and_then (subscript data ''rates'') (\<lambda>rates.
     and_then (subscript rates to_currency) (\<lambda>converted_amount.
       Inr (converted_amount, PNone))))))"

definition get_conversion ::
  "world \<Rightarrow> pyval \<Rightarrow> string \<Rightarrow> string \<Rightarrow> CurrencyTracker
     \<Rightarrow> (pyval \<times> pyval) res \<times> CurrencyTracker" where
  "get_conversion w amount from_currency to_currency self =
     (case conversion_body w amount from_currency to_currency of
        Inr t \<Rightarrow> (Inr t, self)
      | Inl e \<Rightarrow>
          if is_Exception (exc_class_of e)
          then (Inr (PNone, PStr (''Conversion error: '' @ str_exn e)), self)
          else (Inl e, self))"

text \<open>\<^verbatim>\<open>save_to_history\<close>: \<^verbatim>\<open>self.history.append(rates_data)\<close>.\<close>

definition save_to_history :: "pyval \<Rightarrow> CurrencyTracker \<Rightarrow> CurrencyTracker" where
  "save_to_history rates_data self = self\<lparr>history := history self @ [rates_data]\<rparr>"

section \<open>The caller: refresh_rates\<close>

text \<open>
  Of the window, the model keeps what \<^verbatim>\<open>refresh_rates\<close> reads and writes apart from
  widgets: the tracker and \<^verbatim>\<open>current_rates\<close>. \<open>refresh_rates\<close> gives these two as the
  callback leaves them, by whichever of its exits: an exception of the fetch, the early
  return after \<^verbatim>\<open>if error:\<close>, the end of the function, or an exception of the
  statements that follow the call of \<^verbatim>\<open>save_to_history\<close> (\<^verbatim>\<open>update_rates_display\<close>
  raises \<^verbatim>\<open>TypeError\<close> on a rate that is \<^verbatim>\<open>null\<close>, for one). Those statements, and the
  ones before the fetch, work on widgets only and assign neither field, so the two fields
  are settled by lines 337 to 346: the fetch, the test, the assignment and the call of
  \<^verbatim>\<open>save_to_history\<close>. Which exit was taken is not part of the result. \<open>base\<close> is what
  \<^verbatim>\<open>base_currency_var.get()\<close> gave.
\<close>

record CurrencyTrackerGUI =
  tracker :: CurrencyTracker
  current_rates :: pyval

definition refresh_rates ::
  "world \<Rightarrow> string \<Rightarrow> CurrencyTrackerGUI \<Rightarrow> CurrencyTrackerGUI" where
  "refresh_rates w base gui =
     (case get_exchange_rates w base (tracker gui) of
        (Inl e, tr) \<Rightarrow> gui\<lparr>tracker := tr\<rparr>
      | (Inr (rates_data, error), tr) \<Rightarrow>
          if py_truthy error then gui\<lparr>tracker := tr\<rparr>
          else gui\<lparr>tracker := save_to_history rates_data tr,
                   current_rates := rates_data\<rparr>)"

text \<open>
  A session is a sequence of refreshes, each in the world of its moment and with the base
  selected then. An exception that leaves one refresh ends that callback only.
\<close>

fun refresh_seq :: "(world \<times> string) list \<Rightarrow> CurrencyTrackerGUI \<Rightarrow> CurrencyTrackerGUI" where
  "refresh_seq [] gui = gui"
| "refresh_seq (c # cs) gui = refresh_seq cs (refresh_rates (fst c) (snd c) gui)"

section \<open>The vocabulary of the specification\<close>

text \<open>
  The specification classifies errors; the source tells them apart by the prefix of the
  message it returns. \<open>NetworkError\<close> is the prefix \<^verbatim>\<open>Network error: \<close>, \<open>ParseError\<close>
  the generic prefix \<^verbatim>\<open>Error: \<close> of the second \<^verbatim>\<open>except\<close> clause, \<open>ConversionError\<close>
  the prefix \<^verbatim>\<open>Conversion error: \<close>.
\<close>

datatype error_kind = NetworkError | ParseError | ConversionError

fun starts_with :: "string \<Rightarrow> string \<Rightarrow> bool" where
  "starts_with [] s = True"
| "starts_with (p # ps) [] = False"
| "starts_with (p # ps) (c # cs) = (p = c \<and> starts_with ps cs)"

fun classify :: "pyval \<Rightarrow> error_kind option" where
  "classify (PStr s) =
     (if starts_with ''Network error: '' s then Some NetworkError
      else if starts_with ''Conversion error: '' s then Some ConversionError
      else if starts_with ''Error: '' s then Some ParseError
      else None)"
| "classify v = None"

text \<open>A successful fetch: the call returned a pair whose error is not truthy.\<close>

definition fetched :: "CurrencyTracker \<Rightarrow> world \<times> string \<Rightarrow> pyval option" where
  "fetched self c =
     (case fst (get_exchange_rates (fst c) (snd c) self) of
        Inl e \<Rightarrow> None
      | Inr (rates_data, error) \<Rightarrow> if py_truthy error then None else Some rates_data)"

text \<open>
  The faults of a transport outcome are instances of \<^verbatim>\<open>Exception\<close>: those of the
  library and of the provider are; \<^verbatim>\<open>KeyboardInterrupt\<close> and \<^verbatim>\<open>SystemExit\<close> are not.
\<close>

definition faults_are_Exceptions :: "response res \<Rightarrow> bool" where
  "faults_are_Exceptions r =
     (case r of
        Inl e \<Rightarrow> is_Exception (exc_class_of e)
      | Inr resp \<Rightarrow>
          (case json_result resp of
             Inl e \<Rightarrow> is_Exception (exc_class_of e)
           | Inr data \<Rightarrow> True))"

text \<open>The expected schema: a JSON object with the keys \<^verbatim>\<open>base\<close>, \<^verbatim>\<open>date\<close>, \<^verbatim>\<open>rates\<close>.\<close>

fun has_schema :: "pyval \<Rightarrow> bool" where
  "has_schema (PDict kvs) =
     (map_of kvs ''base'' \<noteq> None \<and> map_of kvs ''date'' \<noteq> None \<and> map_of kvs ''rates'' \<noteq> None)"
| "has_schema v = False"

text \<open>A finite positive number, and a rates mapping all of whose values are such.\<close>

fun finite_positive :: "pyval \<Rightarrow> bool" where
  "finite_positive (PInt i) = (0 < i)"
| "finite_positive (PFloat (Fin x)) = (0 < x)"
| "finite_positive v = False"

fun rates_finite_positive :: "pyval \<Rightarrow> bool" where
  "rates_finite_positive (PDict kvs) = list_all (\<lambda>kv. finite_positive (snd kv)) kvs"
| "rates_finite_positive v = False"

section \<open>Sample worlds\<close>

definition world_of :: "response res \<Rightarrow> world" where
  "world_of r = \<lparr>requests_get = (\<lambda>req. r),
                 now_text = ''2024-01-15 12:00:00'',
                 str_amount = (\<lambda>a. ''100.0'')\<rparr>"

definition respond :: "nat \<Rightarrow> pyval \<Rightarrow> response" where
  "respond code body = \<lparr>status_code = code, http_error_msg = [], json_result = Inr body\<rparr>"

definition usd_body :: pyval where
  "usd_body = PDict [(''base'', PStr ''USD''), (''date'', PStr ''2024-01-15''),
                     (''rates'', PDict [(''EUR'', PFloat (Fin 0.92)), (''GBP'', PFloat (Fin 0.79))])]"

definition usd_snapshot :: pyval where
  "usd_snapshot = PDict [(''base'', PStr ''USD''), (''date'', PStr ''2024-01-15''),
                         (''timestamp'', PStr ''2024-01-15 12:00:00''),
                         (''rates'', PDict [(''EUR'', PFloat (Fin 0.92)), (''GBP'', PFloat (Fin 0.79))])]"

definition eur_body :: pyval where
  "eur_body = PDict [(''amount'', PFloat (Fin 100)), (''base'', PStr ''USD''),
                     (''date'', PStr ''2024-01-15''),
                     (''rates'', PDict [(''EUR'', PFloat (Fin 92))])]"

definition unreachable :: world where
  "unreachable = world_of (Inl (Exn ConnectionError ''Name or service not known''))"

definition timed_out :: world where
  "timed_out = world_of (Inl (Exn Timeout ''Read timed out. (read timeout=10)''))"

definition window :: CurrencyTrackerGUI where
  "window = \<lparr>tracker = init, current_rates = PNone\<rparr>"

definition session :: "(world \<times> string) list" where
  "session = [(world_of (Inr (respond 200 usd_body)), ''USD''),
              (unreachable, ''USD''),
              (world_of (Inr (respond 200 usd_body)), ''USD'')]"

definition not_json :: response where
  "not_json = \<lparr>status_code = 200, http_error_msg = [],
                json_result = Inl (Exn RequestsJSONDecodeError
                                     ''Expecting value: line 1 column 1 (char 0)'')\<rparr>"

definition unavailable :: response where
  "unavailable = \<lparr>status_code = 503,
                   http_error_msg = ''503 Server Error: Service Unavailable for url: https://api.frankfurter.app/latest?from=USD'',
                   json_result = Inr (PDict [(''message'', PStr ''unavailable'')])\<rparr>"

definition null_rate_body :: pyval where
  "null_rate_body = PDict [(''amount'', PFloat (Fin 100)), (''base'', PStr ''USD''),
                           (''date'', PStr ''2024-01-15''),
                           (''rates'', PDict [(''EUR'', PNone)])]"

definition zero_rate_body :: pyval where
  "zero_rate_body = PDict [(''base'', PStr ''USD''), (''date'', PStr ''2024-01-15''),
                           (''rates'', PDict [(''EUR'', PInt 0)])]"

definition no_rate_body :: pyval where
  "no_rate_body = PDict [(''amount'', PFloat (Fin 100)), (''base'', PStr ''USD''),
                         (''date'', PStr ''2024-01-15''), (''rates'', PDict [])]"

section \<open>What subscripting raises\<close>

lemma subscript_raises:
  "subscript v k = Inl e \<Longrightarrow> exc_class_of e = KeyError \<or> exc_class_of e = TypeError"
  by (cases v) (auto split: option.splits)

lemma subscript_raises_Exception:
  "subscript v k = Inl e \<Longrightarrow>
     is_Exception (exc_class_of e) \<and> \<not> is_RequestException (exc_class_of e)"
  using subscript_raises [of v k e] by auto

section \<open>The fetch and the history\<close>

lemma get_exchange_rates_self: "snd (get_exchange_rates w base self) = self"
  by (simp add: get_exchange_rates_def split: sum.splits)

lemma get_exchange_rates_api_url:
  "api_url self' = api_url self \<Longrightarrow>
     fst (get_exchange_rates w base self') = fst (get_exchange_rates w base self)"
  by (simp add: get_exchange_rates_def rates_body_def rates_request_def split: sum.splits)

lemma fetched_api_url: "api_url self' = api_url self \<Longrightarrow> fetched self' c = fetched self c"
  unfolding fetched_def using get_exchange_rates_api_url [of self' self "fst c" "snd c"] by simp

lemma refresh_rates_tracker:
  "tracker (refresh_rates w base gui) =
     (case fetched (tracker gui) (w, base) of
        None \<Rightarrow> tracker gui
      | Some d \<Rightarrow> save_to_history d (tracker gui))"
proof -
  obtain r tr where g: "get_exchange_rates w base (tracker gui) = (r, tr)"
    by (cases "get_exchange_rates w base (tracker gui)")
  have tr: "tr = tracker gui"
    using get_exchange_rates_self [of w base "tracker gui"] g by simp
  show ?thesis
    using g tr
    by (cases r) (auto simp: refresh_rates_def fetched_def split: prod.splits)
qed

lemma refresh_rates_history:
  "history (tracker (refresh_rates w base gui)) =
     history (tracker gui) @ (case fetched (tracker gui) (w, base) of None \<Rightarrow> [] | Some d \<Rightarrow> [d])"
  by (cases "fetched (tracker gui) (w, base)")
     (simp_all add: refresh_rates_tracker save_to_history_def)

lemma refresh_rates_api_url:
  "api_url (tracker (refresh_rates w base gui)) = api_url (tracker gui)"
  by (cases "fetched (tracker gui) (w, base)")
     (simp_all add: refresh_rates_tracker save_to_history_def)

lemma refresh_seq_history:
  "history (tracker (refresh_seq cs gui)) =
     history (tracker gui) @ List.map_filter (fetched (tracker gui)) cs"
proof (induction cs arbitrary: gui)
  case Nil
  show ?case by simp
next
  case (Cons c cs)
  let ?g = "refresh_rates (fst c) (snd c) gui"
  have same: "fetched (tracker ?g) = fetched (tracker gui)"
    by (rule ext, rule fetched_api_url, rule refresh_rates_api_url)
  have step: "history (tracker ?g) =
      history (tracker gui) @ (case fetched (tracker gui) c of None \<Rightarrow> [] | Some d \<Rightarrow> [d])"
    using refresh_rates_history [of "fst c" "snd c" gui] by simp
  have "history (tracker (refresh_seq (c # cs) gui)) =
      history (tracker ?g) @ List.map_filter (fetched (tracker gui)) cs"
    using Cons.IH [of ?g] by (simp only: refresh_seq.simps same)
  also have "\<dots> = history (tracker gui) @ List.map_filter (fetched (tracker gui)) (c # cs)"
    by (cases "fetched (tracker gui) c") (simp_all add: step)
  finally show ?case .
qed

lemma length_map_filter_count:
  "length (List.map_filter f xs) = length (filter (\<lambda>x. f x \<noteq> None) xs)"
  by (induction xs) (auto split: option.splits)

lemmas eval_defs =
  get_exchange_rates_def rates_body_def rates_request_def
  get_conversion_def conversion_body_def conversion_request_def
  and_then_def raise_for_status_def world_of_def respond_def init_def
  py_repr_str_def repr_char_def py_printable_def Let_def

lemma fetched_ok:
  "fetched init (world_of (Inr (respond 200 usd_body)), ''USD'') = Some usd_snapshot"
  by (simp add: fetched_def eval_defs usd_body_def usd_snapshot_def)

lemma fetched_unreachable: "fetched init (unreachable, ''USD'') = None"
  by (simp add: fetched_def eval_defs unreachable_def)

lemma fetched_session: "List.map_filter (fetched init) session = [usd_snapshot, usd_snapshot]"
  by (simp add: session_def fetched_ok fetched_unreachable)

text \<open>
  C4. A refresh appends the snapshot to the history when the fetch succeeded and leaves the
  history as it was when the fetch failed. Over any sequence of refreshes the history is
  the old history followed by the snapshots of the successful fetches, in the order of the
  calls: its length grows by the number of successful calls, and the snapshot of the N-th
  successful fetch is N-1 places after the old entries (at index N-1 when the session
  began with an empty history).
\<close>

theorem history_grows_by_successes:
  "history (tracker (refresh_rates w base gui)) =
     history (tracker gui) @ (case fetched (tracker gui) (w, base) of None \<Rightarrow> [] | Some d \<Rightarrow> [d])
   \<and> history (tracker (refresh_seq cs gui)) =
     history (tracker gui) @ List.map_filter (fetched (tracker gui)) cs
   \<and> length (history (tracker (refresh_seq cs gui))) =
     length (history (tracker gui)) + length (filter (\<lambda>c. fetched (tracker gui) c \<noteq> None) cs)
   \<and> (\<forall>n. 1 \<le> n \<and> n \<le> length (List.map_filter (fetched (tracker gui)) cs) \<longrightarrow>
        history (tracker (refresh_seq cs gui)) ! (length (history (tracker gui)) + n - 1) =
        List.map_filter (fetched (tracker gui)) cs ! (n - 1))"
proof -
  have seq: "history (tracker (refresh_seq cs gui)) =
     history (tracker gui) @ List.map_filter (fetched (tracker gui)) cs"
    by (rule refresh_seq_history)
  have len: "length (history (tracker (refresh_seq cs gui))) =
     length (history (tracker gui)) + length (filter (\<lambda>c. fetched (tracker gui) c \<noteq> None) cs)"
    by (simp add: seq length_map_filter_count)
  have idx: "\<forall>n. 1 \<le> n \<and> n \<le> length (List.map_filter (fetched (tracker gui)) cs) \<longrightarrow>
        history (tracker (refresh_seq cs gui)) ! (length (history (tracker gui)) + n - 1) =
        List.map_filter (fetched (tracker gui)) cs ! (n - 1)"
    by (auto simp: seq nth_append)
  show ?thesis
    by (intro conjI) (rule refresh_rates_history, rule seq, rule len, rule idx)
qed

theorem history_grows_by_successes_witness:
  "history (tracker (refresh_seq session window)) = [usd_snapshot, usd_snapshot]
   \<and> length (history (tracker (refresh_seq session window))) = 2
   \<and> history (tracker (refresh_seq session window)) ! (2 - 1) = usd_snapshot
   \<and> history (tracker (refresh_rates unreachable ''USD'' window)) = []"
proof -
  have tr: "tracker window = init" "history init = []"
    by (simp_all add: window_def init_def)
  have n: "(1::nat) \<le> 2 \<and> 2 \<le> length (List.map_filter (fetched init) session)"
    by (simp add: fetched_session)
  note t = history_grows_by_successes [of unreachable "''USD''" window session]
  have a: "history (tracker (refresh_rates unreachable ''USD'' window)) = []"
    using t by (simp add: tr fetched_unreachable)
  have b: "history (tracker (refresh_seq session window)) = [usd_snapshot, usd_snapshot]"
    using t by (simp add: tr fetched_session)
  have c: "history (tracker (refresh_seq session window)) ! (2 - 1) = usd_snapshot"
    using t n by (simp add: tr fetched_session)
  show ?thesis
    using a b c by simp
qed

text \<open>
  C9. \<^verbatim>\<open>get_exchange_rates\<close> leaves the tracker as it found it, whether the fetch
  succeeds or fails: the history and the other two fields are the same afterwards.
\<close>

theorem get_exchange_rates_frame:
  "snd (get_exchange_rates w base self) = self
   \<and> history (snd (get_exchange_rates w base self)) = history self
   \<and> api_url (snd (get_exchange_rates w base self)) = api_url self
   \<and> base_currency (snd (get_exchange_rates w base self)) = base_currency self"
  by (simp add: get_exchange_rates_self)

theorem get_exchange_rates_frame_witness:
  "snd (get_exchange_rates (world_of (Inr (respond 200 usd_body))) ''USD'' (save_to_history usd_snapshot init))
     = save_to_history usd_snapshot init
   \<and> history (snd (get_exchange_rates unreachable ''USD'' (save_to_history usd_snapshot init)))
     = [usd_snapshot]"
  using get_exchange_rates_frame [of "world_of (Inr (respond 200 usd_body))" "''USD''"
          "save_to_history usd_snapshot init"]
        get_exchange_rates_frame [of unreachable "''USD''" "save_to_history usd_snapshot init"]
  by (simp add: save_to_history_def init_def)

text \<open>
  C10. \<^verbatim>\<open>save_to_history\<close> appends whatever it is given, \<^verbatim>\<open>None\<close> included: the new
  history is the old one with the value at the end, one longer, and the other fields are
  untouched. It tests nothing. Recording only successful fetches is the caller's doing:
  \<^verbatim>\<open>refresh_rates\<close> calls it exactly when the fetch succeeded and leaves the tracker
  alone otherwise.
\<close>

theorem save_to_history_appends:
  "history (save_to_history v self) = history self @ [v]
   \<and> length (history (save_to_history v self)) = length (history self) + 1
   \<and> api_url (save_to_history v self) = api_url self
   \<and> base_currency (save_to_history v self) = base_currency self
   \<and> history (save_to_history PNone self) = history self @ [PNone]
   \<and> (fetched (tracker gui) (w, base) = None \<longrightarrow>
        tracker (refresh_rates w base gui) = tracker gui)
   \<and> (\<forall>d. fetched (tracker gui) (w, base) = Some d \<longrightarrow>
        tracker (refresh_rates w base gui) = save_to_history d (tracker gui))"
  by (simp add: save_to_history_def refresh_rates_tracker)

theorem save_to_history_appends_witness:
  "history (save_to_history PNone (save_to_history usd_snapshot init)) = [usd_snapshot, PNone]
   \<and> fetched (tracker window) (unreachable, ''USD'') = None
   \<and> tracker (refresh_rates unreachable ''USD'' window) = tracker window
   \<and> fetched (tracker window) (world_of (Inr (respond 200 usd_body)), ''USD'') = Some usd_snapshot
   \<and> tracker (refresh_rates (world_of (Inr (respond 200 usd_body))) ''USD'' window)
       = save_to_history usd_snapshot (tracker window)"
proof -
  have tr: "tracker window = init"
    by (simp add: window_def)
  have a: "history (save_to_history PNone (save_to_history usd_snapshot init)) = [usd_snapshot, PNone]"
    using save_to_history_appends [of PNone "save_to_history usd_snapshot init" window unreachable "''USD''"]
          save_to_history_appends [of usd_snapshot init window unreachable "''USD''"]
    by (simp add: init_def)
  have b: "tracker (refresh_rates unreachable ''USD'' window) = tracker window"
    using save_to_history_appends [of PNone init window unreachable "''USD''"]
    by (simp add: tr fetched_unreachable)
  have c: "tracker (refresh_rates (world_of (Inr (respond 200 usd_body))) ''USD'' window)
       = save_to_history usd_snapshot (tracker window)"
    using save_to_history_appends [of PNone init window "world_of (Inr (respond 200 usd_body))" "''USD''"]
    by (simp add: tr fetched_ok)
  show ?thesis
    using a b c by (simp add: tr fetched_ok fetched_unreachable)
qed

section \<open>The outcomes of the two operations\<close>

lemma classify_prefix:
  "classify (PStr (''Network error: '' @ m)) = Some NetworkError"
  "classify (PStr (''Error: '' @ m)) = Some ParseError"
  "classify (PStr (''Conversion error: '' @ m)) = Some ConversionError"
  by simp_all

lemma rates_body_unfold:
  "rates_body w self base =
     (case requests_get w (rates_request self base) of
        Inl e \<Rightarrow> Inl e
      | Inr resp \<Rightarrow>
          if 400 \<le> status_code resp \<and> status_code resp < 600
          then Inl (Exn HTTPError (http_error_msg resp))
          else (case json_result resp of
                  Inl e \<Rightarrow> Inl e
                | Inr data \<Rightarrow>
                    (case subscript data ''base'' of
                       Inl e \<Rightarrow> Inl e
                     | Inr b \<Rightarrow>
                         (case subscript data ''date'' of
                            Inl e \<Rightarrow> Inl e
                          | Inr d \<Rightarrow>
                              (case subscript data ''rates'' of
                                 Inl e \<Rightarrow> Inl e
                               | Inr r \<Rightarrow>
                                   Inr (PDict [(''base'', b), (''date'', d),
                                               (''timestamp'', PStr (now_text w)), (''rates'', r)],
                                        PNone))))))"
  by (simp add: rates_body_def and_then_def raise_for_status_def split: sum.splits)

lemma conversion_body_unfold:
  "conversion_body w amount f t =
     (case requests_get w (conversion_request w amount f t) of
        Inl e \<Rightarrow> Inl e
      | Inr resp \<Rightarrow>
          if 400 \<le> status_code resp \<and> status_code resp < 600
          then Inl (Exn HTTPError (http_error_msg resp))
          else (case json_result resp of
                  Inl e \<Rightarrow> Inl e
                | Inr data \<Rightarrow>
                    (case subscript data ''rates'' of
                       Inl e \<Rightarrow> Inl e
                     | Inr rates \<Rightarrow>
                         (case subscript rates t of
                            Inl e \<Rightarrow> Inl e
                          | Inr v \<Rightarrow> Inr (v, PNone)))))"
  by (simp add: conversion_body_def and_then_def raise_for_status_def split: sum.splits)

lemma rates_body_raises:
  assumes "faults_are_Exceptions (requests_get w (rates_request self base))"
      and "rates_body w self base = Inl e"
  shows "is_Exception (exc_class_of e)"
  using assms
  by (auto simp: rates_body_unfold faults_are_Exceptions_def
           dest: subscript_raises_Exception split: sum.splits if_splits)

lemma conversion_body_raises:
  assumes "faults_are_Exceptions (requests_get w (conversion_request w amount f t))"
      and "conversion_body w amount f t = Inl e"
  shows "is_Exception (exc_class_of e)"
  using assms
  by (auto simp: conversion_body_unfold faults_are_Exceptions_def
           dest: subscript_raises_Exception split: sum.splits if_splits)

lemma rates_body_returns:
  assumes "rates_body w self base = Inr (r, e)"
  shows "e = PNone \<and> (\<exists>resp data b d rs.
           requests_get w (rates_request self base) = Inr resp
         \<and> \<not> (400 \<le> status_code resp \<and> status_code resp < 600)
         \<and> json_result resp = Inr data
         \<and> subscript data ''base'' = Inr b \<and> subscript data ''date'' = Inr d
         \<and> subscript data ''rates'' = Inr rs
         \<and> r = PDict [(''base'', b), (''date'', d),
                       (''timestamp'', PStr (now_text w)), (''rates'', rs)])"
  using assms
  by (auto simp: rates_body_unfold split: sum.splits if_splits)

lemma conversion_body_returns:
  assumes "conversion_body w amount f t = Inr (r, e)"
  shows "e = PNone \<and> (\<exists>resp data rates.
           requests_get w (conversion_request w amount f t) = Inr resp
         \<and> \<not> (400 \<le> status_code resp \<and> status_code resp < 600)
         \<and> json_result resp = Inr data
         \<and> subscript data ''rates'' = Inr rates
         \<and> subscript rates t = Inr r)"
  using assms
  by (auto simp: conversion_body_unfold split: sum.splits if_splits)

lemma get_exchange_rates_get_raises:
  assumes "requests_get w (rates_request self base) = Inl (Exn c m)" and "is_Exception c"
  shows "get_exchange_rates w base self =
           (Inr (PNone, PStr ((if is_RequestException c then ''Network error: '' else ''Error: '') @ m)),
            self)"
  using assms by (simp add: get_exchange_rates_def rates_body_unfold)

lemma get_exchange_rates_status:
  assumes "requests_get w (rates_request self base) = Inr resp"
      and "400 \<le> status_code resp \<and> status_code resp < 600"
  shows "get_exchange_rates w base self =
           (Inr (PNone, PStr (''Network error: '' @ http_error_msg resp)), self)"
  using assms by (simp add: get_exchange_rates_def rates_body_unfold)

lemma get_exchange_rates_json_raises:
  assumes "requests_get w (rates_request self base) = Inr resp"
      and "\<not> (400 \<le> status_code resp \<and> status_code resp < 600)"
      and "json_result resp = Inl (Exn c m)" and "is_Exception c"
  shows "get_exchange_rates w base self =
           (Inr (PNone, PStr ((if is_RequestException c then ''Network error: '' else ''Error: '') @ m)),
            self)"
proof -
  have "rates_body w self base = Inl (Exn c m)"
    using assms(1-3) by (auto simp: rates_body_unfold)
  then show ?thesis
    using assms(4) by (simp add: get_exchange_rates_def)
qed

lemma no_schema_raises:
  assumes "\<not> has_schema data"
  shows "\<exists>e. (subscript data ''base'' = Inl e
            \<or> (\<exists>b. subscript data ''base'' = Inr b \<and> subscript data ''date'' = Inl e)
            \<or> (\<exists>b d. subscript data ''base'' = Inr b \<and> subscript data ''date'' = Inr d
                  \<and> subscript data ''rates'' = Inl e))"
proof (cases data)
  case (PDict kvs)
  then show ?thesis
    using assms
    by (cases "map_of kvs ''base''"; cases "map_of kvs ''date''"; cases "map_of kvs ''rates''")
       simp_all
qed simp_all

lemma get_exchange_rates_no_schema:
  assumes "requests_get w (rates_request self base) = Inr resp"
      and "\<not> (400 \<le> status_code resp \<and> status_code resp < 600)"
      and "json_result resp = Inr data" and "\<not> has_schema data"
  shows "\<exists>m. get_exchange_rates w base self = (Inr (PNone, PStr (''Error: '' @ m)), self)"
proof -
  obtain e where e: "subscript data ''base'' = Inl e
            \<or> (\<exists>b. subscript data ''base'' = Inr b \<and> subscript data ''date'' = Inl e)
            \<or> (\<exists>b d. subscript data ''base'' = Inr b \<and> subscript data ''date'' = Inr d
                  \<and> subscript data ''rates'' = Inl e)"
    using no_schema_raises [OF assms(4)] by blast
  then have cls: "is_Exception (exc_class_of e) \<and> \<not> is_RequestException (exc_class_of e)"
    using subscript_raises_Exception by blast
  have "rates_body w self base = Inl e"
    using assms(1-3) e by (auto simp: rates_body_unfold)
  then have "get_exchange_rates w base self = (Inr (PNone, PStr (''Error: '' @ str_exn e)), self)"
    using cls by (simp add: get_exchange_rates_def)
  then show ?thesis by blast
qed

lemma get_exchange_rates_returns:
  assumes "requests_get w (rates_request self base) = Inr resp"
      and "\<not> (400 \<le> status_code resp \<and> status_code resp < 600)"
      and "json_result resp = Inr data"
      and "subscript data ''base'' = Inr b"
      and "subscript data ''date'' = Inr d"
      and "subscript data ''rates'' = Inr rs"
  shows "get_exchange_rates w base self =
           (Inr (PDict [(''base'', b), (''date'', d),
                        (''timestamp'', PStr (now_text w)), (''rates'', rs)], PNone), self)"
proof -
  have "rates_body w self base =
          Inr (PDict [(''base'', b), (''date'', d),
                      (''timestamp'', PStr (now_text w)), (''rates'', rs)], PNone)"
    using assms by (auto simp: rates_body_unfold)
  then show ?thesis
    by (simp add: get_exchange_rates_def)
qed

lemma get_exchange_rates_outcome:
  assumes "faults_are_Exceptions (requests_get w (rates_request self base))"
  shows "(\<exists>resp data b d rs.
            requests_get w (rates_request self base) = Inr resp
          \<and> \<not> (400 \<le> status_code resp \<and> status_code resp < 600)
          \<and> json_result resp = Inr data
          \<and> subscript data ''base'' = Inr b \<and> subscript data ''date'' = Inr d
          \<and> subscript data ''rates'' = Inr rs
          \<and> get_exchange_rates w base self =
              (Inr (PDict [(''base'', b), (''date'', d),
                           (''timestamp'', PStr (now_text w)), (''rates'', rs)], PNone), self))
       \<or> (\<exists>m. get_exchange_rates w base self =
                 (Inr (PNone, PStr (''Network error: '' @ m)), self))
       \<or> (\<exists>m. get_exchange_rates w base self = (Inr (PNone, PStr (''Error: '' @ m)), self))"
proof (cases "rates_body w self base")
  case (Inl e)
  then have "is_Exception (exc_class_of e)"
    using rates_body_raises [OF assms] by blast
  then show ?thesis
    using Inl by (cases "is_RequestException (exc_class_of e)") (simp_all add: get_exchange_rates_def)
next
  case (Inr t)
  obtain r e where t: "t = (r, e)" by (cases t)
  have "get_exchange_rates w base self = (Inr (r, e), self)"
    using Inr t by (simp add: get_exchange_rates_def)
  then show ?thesis
    using rates_body_returns [of w self base r e] Inr t by auto
qed

lemma get_conversion_raises:
  assumes "conversion_body w amount f t = Inl e" and "is_Exception (exc_class_of e)"
  shows "get_conversion w amount f t self =
           (Inr (PNone, PStr (''Conversion error: '' @ str_exn e)), self)"
  using assms by (simp add: get_conversion_def)

lemma get_conversion_returns:
  assumes "requests_get w (conversion_request w amount f t) = Inr resp"
      and "\<not> (400 \<le> status_code resp \<and> status_code resp < 600)"
      and "json_result resp = Inr data"
      and "subscript data ''rates'' = Inr rates"
      and "subscript rates t = Inr v"
  shows "get_conversion w amount f t self = (Inr (v, PNone), self)"
  using assms by (simp add: get_conversion_def conversion_body_unfold)

lemma conversion_body_entry:
  assumes "requests_get w (conversion_request w amount f t) = Inr resp"
      and "\<not> (400 \<le> status_code resp \<and> status_code resp < 600)"
      and "json_result resp = Inr data"
      and "subscript data ''rates'' = Inr rates"
      and "subscript rates t = Inr v"
  shows "conversion_body w amount f t = Inr (v, PNone)"
  using assms by (auto simp: conversion_body_unfold)

lemma get_conversion_get_raises:
  assumes "requests_get w (conversion_request w amount f t) = Inl (Exn c m)" and "is_Exception c"
  shows "get_conversion w amount f t self =
           (Inr (PNone, PStr (''Conversion error: '' @ m)), self)"
proof -
  have "conversion_body w amount f t = Inl (Exn c m)"
    using assms(1) by (simp add: conversion_body_unfold)
  then show ?thesis
    using assms(2) get_conversion_raises [of w amount f t "Exn c m" self] by simp
qed

lemma get_conversion_status:
  assumes "requests_get w (conversion_request w amount f t) = Inr resp"
      and "400 \<le> status_code resp \<and> status_code resp < 600"
  shows "get_conversion w amount f t self =
           (Inr (PNone, PStr (''Conversion error: '' @ http_error_msg resp)), self)"
proof -
  have "conversion_body w amount f t = Inl (Exn HTTPError (http_error_msg resp))"
    using assms by (simp add: conversion_body_unfold)
  then show ?thesis
    using get_conversion_raises [of w amount f t "Exn HTTPError (http_error_msg resp)" self] by simp
qed

lemma get_conversion_json_raises:
  assumes "requests_get w (conversion_request w amount f t) = Inr resp"
      and "\<not> (400 \<le> status_code resp \<and> status_code resp < 600)"
      and "json_result resp = Inl (Exn c m)" and "is_Exception c"
  shows "get_conversion w amount f t self =
           (Inr (PNone, PStr (''Conversion error: '' @ m)), self)"
proof -
  have "conversion_body w amount f t = Inl (Exn c m)"
    using assms(1-3) by (auto simp: conversion_body_unfold)
  then show ?thesis
    using assms(4) get_conversion_raises [of w amount f t "Exn c m" self] by simp
qed

lemma get_conversion_no_rates:
  assumes "requests_get w (conversion_request w amount f t) = Inr resp"
      and "\<not> (400 \<le> status_code resp \<and> status_code resp < 600)"
      and "json_result resp = Inr data"
      and "subscript data ''rates'' = Inl e"
  shows "get_conversion w amount f t self =
           (Inr (PNone, PStr (''Conversion error: '' @ str_exn e)), self)"
proof -
  have "conversion_body w amount f t = Inl e"
    using assms by (auto simp: conversion_body_unfold)
  moreover have "is_Exception (exc_class_of e)"
    using assms(4) subscript_raises_Exception by blast
  ultimately show ?thesis
    by (rule get_conversion_raises)
qed

lemma get_conversion_no_entry:
  assumes "requests_get w (conversion_request w amount f t) = Inr resp"
      and "\<not> (400 \<le> status_code resp \<and> status_code resp < 600)"
      and "json_result resp = Inr data"
      and "subscript data ''rates'' = Inr rates"
      and "subscript rates t = Inl e"
  shows "get_conversion w amount f t self =
           (Inr (PNone, PStr (''Conversion error: '' @ str_exn e)), self)"
proof -
  have "conversion_body w amount f t = Inl e"
    using assms by (auto simp: conversion_body_unfold)
  moreover have "is_Exception (exc_class_of e)"
    using assms(5) subscript_raises_Exception by blast
  ultimately show ?thesis
    by (rule get_conversion_raises)
qed

lemma get_conversion_outcome:
  assumes "faults_are_Exceptions (requests_get w (conversion_request w amount f t))"
  shows "(\<exists>resp data rates v.
            requests_get w (conversion_request w amount f t) = Inr resp
          \<and> \<not> (400 \<le> status_code resp \<and> status_code resp < 600)
          \<and> json_result resp = Inr data
          \<and> subscript data ''rates'' = Inr rates
          \<and> subscript rates t = Inr v
          \<and> get_conversion w amount f t self = (Inr (v, PNone), self))
       \<or> (conversion_body w amount f t \<noteq> Inr (PNone, PNone)
          \<and> (\<exists>m. get_conversion w amount f t self =
                    (Inr (PNone, PStr (''Conversion error: '' @ m)), self)))"
proof (cases "conversion_body w amount f t")
  case (Inl e)
  then have "is_Exception (exc_class_of e)"
    using conversion_body_raises [OF assms] by blast
  then show ?thesis
    using Inl by (simp add: get_conversion_def)
next
  case (Inr p)
  obtain r e where p: "p = (r, e)" by (cases p)
  have "get_conversion w amount f t self = (Inr (r, e), self)"
    using Inr p by (simp add: get_conversion_def)
  then show ?thesis
    using conversion_body_returns [of w amount f t r e] Inr p by auto
qed

lemma get_conversion_failure:
  assumes "faults_are_Exceptions (requests_get w (conversion_request w amount f t))"
      and "\<not> (\<exists>resp data rates v.
                requests_get w (conversion_request w amount f t) = Inr resp
              \<and> \<not> (400 \<le> status_code resp \<and> status_code resp < 600)
              \<and> json_result resp = Inr data
              \<and> subscript data ''rates'' = Inr rates
              \<and> subscript rates t = Inr v)"
  shows "\<exists>m. get_conversion w amount f t self =
               (Inr (PNone, PStr (''Conversion error: '' @ m)), self)"
  using get_conversion_outcome [OF assms(1), of self] assms(2) by blast

lemma get_conversion_value:
  assumes "fst (get_conversion w amount f t self) = Inr (r, e)" and "r \<noteq> PNone"
  shows "e = PNone \<and> (\<exists>resp data rates.
             requests_get w (conversion_request w amount f t) = Inr resp
           \<and> \<not> (400 \<le> status_code resp \<and> status_code resp < 600)
           \<and> json_result resp = Inr data
           \<and> subscript data ''rates'' = Inr rates
           \<and> subscript rates t = Inr r)"
proof -
  have "conversion_body w amount f t = Inr (r, e)"
    using assms by (auto simp: get_conversion_def split: sum.splits if_splits)
  from conversion_body_returns [OF this] show ?thesis
    by blast
qed

text \<open>
  C1 (as amended). When the faults of the transport are instances of \<^verbatim>\<open>Exception\<close>,
  neither operation raises, and the tracker is as it was. \<^verbatim>\<open>get_exchange_rates\<close> returns
  a pair of which exactly one component is \<^verbatim>\<open>None\<close>, and its message, when there is
  one, is classified. \<^verbatim>\<open>get_conversion\<close> returns a pair of which at least one component
  is \<^verbatim>\<open>None\<close>, and its message, when there is one, is a ConversionError. Whenever the
  provider's answer has an entry for the target currency, \<^verbatim>\<open>get_conversion\<close> returns
  that entry as it came and no error; so it returns \<^verbatim>\<open>(None, None)\<close> exactly when the
  entry is \<^verbatim>\<open>null\<close>.
\<close>

theorem one_result_or_error:
  "(faults_are_Exceptions (requests_get w (rates_request self base)) \<longrightarrow>
      (\<exists>r e. get_exchange_rates w base self = (Inr (r, e), self)
         \<and> ((r = PNone) \<noteq> (e = PNone))
         \<and> (e \<noteq> PNone \<longrightarrow>
              classify e = Some NetworkError \<or> classify e = Some ParseError)))
   \<and> (faults_are_Exceptions (requests_get w (conversion_request w amount f t)) \<longrightarrow>
      (\<exists>r e. get_conversion w amount f t self = (Inr (r, e), self)
         \<and> (r = PNone \<or> e = PNone)
         \<and> (e \<noteq> PNone \<longrightarrow> classify e = Some ConversionError)
         \<and> ((r = PNone \<and> e = PNone) \<longleftrightarrow>
              (\<exists>resp data rates.
                   requests_get w (conversion_request w amount f t) = Inr resp
                 \<and> \<not> (400 \<le> status_code resp \<and> status_code resp < 600)
                 \<and> json_result resp = Inr data
                 \<and> subscript data ''rates'' = Inr rates
                 \<and> subscript rates t = Inr PNone))))
   \<and> (requests_get w (conversion_request w amount f t) = Inr resp
        \<and> \<not> (400 \<le> status_code resp \<and> status_code resp < 600)
        \<and> json_result resp = Inr data
        \<and> subscript data ''rates'' = Inr rates
        \<and> subscript rates t = Inr v \<longrightarrow>
      get_conversion w amount f t self = (Inr (v, PNone), self))"
proof (intro conjI impI)
  assume "faults_are_Exceptions (requests_get w (rates_request self base))"
  from get_exchange_rates_outcome [OF this]
  consider
    (ok) s where "get_exchange_rates w base self = (Inr (PDict s, PNone), self)"
  | (net) m where "get_exchange_rates w base self =
                     (Inr (PNone, PStr (''Network error: '' @ m)), self)"
  | (gen) m where "get_exchange_rates w base self = (Inr (PNone, PStr (''Error: '' @ m)), self)"
    by blast
  then show "\<exists>r e. get_exchange_rates w base self = (Inr (r, e), self)
         \<and> ((r = PNone) \<noteq> (e = PNone))
         \<and> (e \<noteq> PNone \<longrightarrow>
              classify e = Some NetworkError \<or> classify e = Some ParseError)"
  proof cases
    case ok
    then show ?thesis by simp
  next
    case net
    then show ?thesis using classify_prefix(1) [of m] by simp
  next
    case gen
    then show ?thesis using classify_prefix(2) [of m] by simp
  qed
next
  assume fa: "faults_are_Exceptions (requests_get w (conversion_request w amount f t))"
  let ?null = "\<exists>resp data rates.
                   requests_get w (conversion_request w amount f t) = Inr resp
                 \<and> \<not> (400 \<le> status_code resp \<and> status_code resp < 600)
                 \<and> json_result resp = Inr data
                 \<and> subscript data ''rates'' = Inr rates
                 \<and> subscript rates t = Inr PNone"
  have null: "?null \<longleftrightarrow> conversion_body w amount f t = Inr (PNone, PNone)"
    using conversion_body_entry [of w amount f t _ _ _ PNone]
          conversion_body_returns [of w amount f t PNone PNone]
    by blast
  from get_conversion_outcome [OF fa, of self]
  consider
    (ok) v where "conversion_body w amount f t = Inr (v, PNone)"
                 "get_conversion w amount f t self = (Inr (v, PNone), self)"
  | (err) m where "conversion_body w amount f t \<noteq> Inr (PNone, PNone)"
                  "get_conversion w amount f t self =
                     (Inr (PNone, PStr (''Conversion error: '' @ m)), self)"
    using conversion_body_entry [of w amount f t] by blast
  then show "\<exists>r e. get_conversion w amount f t self = (Inr (r, e), self)
         \<and> (r = PNone \<or> e = PNone)
         \<and> (e \<noteq> PNone \<longrightarrow> classify e = Some ConversionError)
         \<and> ((r = PNone \<and> e = PNone) \<longleftrightarrow> ?null)"
  proof cases
    case ok
    then show ?thesis using null by auto
  next
    case err
    then show ?thesis using null classify_prefix(3) [of m] by simp
  qed
next
  assume "requests_get w (conversion_request w amount f t) = Inr resp
        \<and> \<not> (400 \<le> status_code resp \<and> status_code resp < 600)
        \<and> json_result resp = Inr data
        \<and> subscript data ''rates'' = Inr rates
        \<and> subscript rates t = Inr v"
  then show "get_conversion w amount f t self = (Inr (v, PNone), self)"
    using get_conversion_returns [of w amount f t resp data rates v self] by simp
qed

theorem one_result_or_error_witness:
  "faults_are_Exceptions (Inr (respond 200 usd_body))
   \<and> faults_are_Exceptions (Inl (Exn ConnectionError ''Name or service not known''))
   \<and> (\<exists>r e. get_exchange_rates (world_of (Inr (respond 200 usd_body))) ''USD'' init
               = (Inr (r, e), init)
          \<and> ((r = PNone) \<noteq> (e = PNone)))
   \<and> (\<exists>r e. get_conversion unreachable (PFloat (Fin 100)) ''USD'' ''EUR'' init = (Inr (r, e), init)
          \<and> (r = PNone \<or> e = PNone))
   \<and> get_conversion (world_of (Inr (respond 200 eur_body))) (PFloat (Fin 100)) ''USD'' ''EUR'' init
       = (Inr (PFloat (Fin 92), PNone), init)"
proof -
  have g: "requests_get (world_of k) q = k" for k q
    by (simp add: world_of_def)
  have a: "faults_are_Exceptions (Inr (respond 200 usd_body))"
    by (simp add: faults_are_Exceptions_def respond_def)
  have b: "faults_are_Exceptions (Inl (Exn ConnectionError ''Name or service not known''))"
    by (simp add: faults_are_Exceptions_def)
  have a': "faults_are_Exceptions
              (requests_get (world_of (Inr (respond 200 usd_body))) (rates_request init ''USD''))"
    using a by (simp add: g)
  have b': "faults_are_Exceptions (requests_get unreachable
              (conversion_request unreachable (PFloat (Fin 100)) ''USD'' ''EUR''))"
    using b by (simp add: g unreachable_def)
  have c: "\<exists>r e. get_exchange_rates (world_of (Inr (respond 200 usd_body))) ''USD'' init
               = (Inr (r, e), init)
          \<and> ((r = PNone) \<noteq> (e = PNone))"
    using one_result_or_error [where w = "world_of (Inr (respond 200 usd_body))"
            and self = init and base = "''USD''"] a'
    by blast
  have d: "\<exists>r e. get_conversion unreachable (PFloat (Fin 100)) ''USD'' ''EUR'' init = (Inr (r, e), init)
          \<and> (r = PNone \<or> e = PNone)"
    using one_result_or_error [where w = unreachable and self = init
            and amount = "PFloat (Fin 100)" and f = "''USD''" and t = "''EUR''"] b'
    by blast
  have e: "get_conversion (world_of (Inr (respond 200 eur_body))) (PFloat (Fin 100)) ''USD'' ''EUR'' init
       = (Inr (PFloat (Fin 92), PNone), init)"
    using one_result_or_error [where w = "world_of (Inr (respond 200 eur_body))" and self = init
            and amount = "PFloat (Fin 100)" and f = "''USD''" and t = "''EUR''"
            and resp = "respond 200 eur_body" and data = eur_body
            and rates = "PDict [(''EUR'', PFloat (Fin 92))]" and v = "PFloat (Fin 92)"]
    by (simp add: g respond_def eur_body_def)
  show ?thesis
    using a b c d e by blast
qed

text \<open>
  As stated, C1 fails for \<^verbatim>\<open>get_conversion\<close>: a 200 response whose rates are
  \<^verbatim>\<open>{"EUR": null}\<close> makes it return \<^verbatim>\<open>(None, None)\<close>, neither a result nor an error.
\<close>

theorem conversion_neither_counterexample:
  "faults_are_Exceptions (Inr (respond 200 null_rate_body))
   \<and> get_conversion (world_of (Inr (respond 200 null_rate_body))) (PFloat (Fin 100)) ''USD'' ''EUR'' init
       = (Inr (PNone, PNone), init)"
  by (simp add: faults_are_Exceptions_def eval_defs null_rate_body_def)

section \<open>Classification of failures\<close>

text \<open>
  C2 (as amended). When \<^verbatim>\<open>requests.get\<close> raises a subclass of \<^verbatim>\<open>RequestException\<close> (a DNS
  failure, a refused connection, a timeout) or the response has a status from 400 to 599,
  \<^verbatim>\<open>get_exchange_rates\<close> returns no snapshot and the message \<^verbatim>\<open>Network error: \<close> followed
  by the text of the underlying exception, and leaves the tracker as it was.
\<close>

theorem transport_failure_is_network_error:
  "(requests_get w (rates_request self base) = Inl (Exn c m) \<and> is_RequestException c \<longrightarrow>
      get_exchange_rates w base self = (Inr (PNone, PStr (''Network error: '' @ m)), self))
   \<and> (requests_get w (rates_request self base) = Inr resp
        \<and> 400 \<le> status_code resp \<and> status_code resp < 600 \<longrightarrow>
      get_exchange_rates w base self =
        (Inr (PNone, PStr (''Network error: '' @ http_error_msg resp)), self))
   \<and> classify (PStr (''Network error: '' @ m)) = Some NetworkError"
proof (intro conjI impI)
  assume a: "requests_get w (rates_request self base) = Inl (Exn c m) \<and> is_RequestException c"
  then have "is_Exception c" by (cases c) simp_all
  then show "get_exchange_rates w base self = (Inr (PNone, PStr (''Network error: '' @ m)), self)"
    using a get_exchange_rates_get_raises [of w self base c m] by simp
next
  assume "requests_get w (rates_request self base) = Inr resp
        \<and> 400 \<le> status_code resp \<and> status_code resp < 600"
  then show "get_exchange_rates w base self =
        (Inr (PNone, PStr (''Network error: '' @ http_error_msg resp)), self)"
    using get_exchange_rates_status [of w self base resp] by simp
next
  show "classify (PStr (''Network error: '' @ m)) = Some NetworkError"
    by (rule classify_prefix)
qed

theorem transport_failure_is_network_error_witness:
  "get_exchange_rates unreachable ''USD'' init
     = (Inr (PNone, PStr ''Network error: Name or service not known''), init)
   \<and> get_exchange_rates timed_out ''USD'' init
     = (Inr (PNone, PStr ''Network error: Read timed out. (read timeout=10)''), init)
   \<and> get_exchange_rates (world_of (Inr unavailable)) ''USD'' init
     = (Inr (PNone, PStr (''Network error: '' @ http_error_msg unavailable)), init)"
proof -
  have a: "get_exchange_rates unreachable ''USD'' init
     = (Inr (PNone, PStr ''Network error: Name or service not known''), init)"
    using transport_failure_is_network_error
            [of unreachable init "''USD''" ConnectionError "''Name or service not known''"]
    by (simp add: unreachable_def world_of_def)
  have b: "get_exchange_rates timed_out ''USD'' init
     = (Inr (PNone, PStr ''Network error: Read timed out. (read timeout=10)''), init)"
    using transport_failure_is_network_error
            [of timed_out init "''USD''" Timeout "''Read timed out. (read timeout=10)''"]
    by (simp add: timed_out_def world_of_def)
  have c: "get_exchange_rates (world_of (Inr unavailable)) ''USD'' init
     = (Inr (PNone, PStr (''Network error: '' @ http_error_msg unavailable)), init)"
    using transport_failure_is_network_error
            [of "world_of (Inr unavailable)" init "''USD''" _ _ unavailable]
    by (simp add: unavailable_def world_of_def)
  show ?thesis
    using a b c by simp
qed

text \<open>
  As stated, C2 fails for a status that is neither 2xx nor one \<^verbatim>\<open>raise_for_status\<close> raises
  for: a response with status 300 and a well-formed body yields a snapshot and no error.
\<close>

theorem redirect_status_counterexample:
  "status_code (respond 300 usd_body) = 300
   \<and> get_exchange_rates (world_of (Inr (respond 300 usd_body))) ''USD'' init
       = (Inr (usd_snapshot, PNone), init)"
  by (simp add: eval_defs usd_body_def usd_snapshot_def)

text \<open>
  C3 (as amended). For a 2xx response whose body is JSON but not an object with the keys
  \<^verbatim>\<open>base\<close>, \<^verbatim>\<open>date\<close> and \<^verbatim>\<open>rates\<close>, \<^verbatim>\<open>get_exchange_rates\<close> returns no snapshot and a
  message with the generic prefix \<^verbatim>\<open>Error: \<close>, which is the specification's ParseError.
  For a 2xx response whose body is not JSON, the prefix follows the class of the exception
  that \<^verbatim>\<open>response.json()\<close> raises: \<^verbatim>\<open>Network error: \<close> when it is a subclass of
  \<^verbatim>\<open>RequestException\<close>, \<^verbatim>\<open>Error: \<close> otherwise. A 200 response with the body
  \<^verbatim>\<open>{"unexpected":"shape"}\<close> yields the message \<^verbatim>\<open>Error: 'base'\<close>.
\<close>

theorem malformed_body_is_error:
  "(requests_get w (rates_request self base) = Inr resp
      \<and> 200 \<le> status_code resp \<and> status_code resp < 300
      \<and> json_result resp = Inr data \<and> \<not> has_schema data \<longrightarrow>
        (\<exists>m. get_exchange_rates w base self = (Inr (PNone, PStr (''Error: '' @ m)), self)
            \<and> classify (PStr (''Error: '' @ m)) = Some ParseError))
   \<and> (requests_get w (rates_request self base) = Inr resp
      \<and> 200 \<le> status_code resp \<and> status_code resp < 300
      \<and> json_result resp = Inl (Exn c m) \<and> is_Exception c \<longrightarrow>
        get_exchange_rates w base self =
          (Inr (PNone, PStr ((if is_RequestException c then ''Network error: '' else ''Error: '') @ m)),
           self))
   \<and> get_exchange_rates (world_of (Inr (respond 200 (PDict [(''unexpected'', PStr ''shape'')]))))
        ''USD'' init
       = (Inr (PNone, PStr (''Error: '' @ CHR 0x27 # ''base'' @ [CHR 0x27])), init)"
proof (intro conjI impI)
  assume a: "requests_get w (rates_request self base) = Inr resp
      \<and> 200 \<le> status_code resp \<and> status_code resp < 300
      \<and> json_result resp = Inr data \<and> \<not> has_schema data"
  then have "\<not> (400 \<le> status_code resp \<and> status_code resp < 600)" by simp
  then have "\<exists>m. get_exchange_rates w base self = (Inr (PNone, PStr (''Error: '' @ m)), self)"
    using a get_exchange_rates_no_schema [of w self base resp data] by simp
  then show "\<exists>m. get_exchange_rates w base self = (Inr (PNone, PStr (''Error: '' @ m)), self)
            \<and> classify (PStr (''Error: '' @ m)) = Some ParseError"
    using classify_prefix(2) by blast
next
  assume a: "requests_get w (rates_request self base) = Inr resp
      \<and> 200 \<le> status_code resp \<and> status_code resp < 300
      \<and> json_result resp = Inl (Exn c m) \<and> is_Exception c"
  then have "\<not> (400 \<le> status_code resp \<and> status_code resp < 600)" by simp
  then show "get_exchange_rates w base self =
          (Inr (PNone, PStr ((if is_RequestException c then ''Network error: '' else ''Error: '') @ m)),
           self)"
    using a get_exchange_rates_json_raises [of w self base resp c m] by simp
next
  show "get_exchange_rates (world_of (Inr (respond 200 (PDict [(''unexpected'', PStr ''shape'')]))))
        ''USD'' init
       = (Inr (PNone, PStr (''Error: '' @ CHR 0x27 # ''base'' @ [CHR 0x27])), init)"
    by (simp add: eval_defs)
qed

theorem malformed_body_is_error_witness:
  "\<not> has_schema (PDict [(''base'', PStr ''USD''), (''rates'', PDict [])])
   \<and> (\<exists>m. get_exchange_rates
             (world_of (Inr (respond 200 (PDict [(''base'', PStr ''USD''), (''rates'', PDict [])]))))
             ''USD'' init
           = (Inr (PNone, PStr (''Error: '' @ m)), init))
   \<and> get_exchange_rates
        (world_of (Inr \<lparr>status_code = 200, http_error_msg = [],
                        json_result = Inl (Exn ValueError ''Expecting value: line 1 column 1 (char 0)'')\<rparr>))
        ''USD'' init
       = (Inr (PNone, PStr ''Error: Expecting value: line 1 column 1 (char 0)''), init)"
proof -
  have a: "\<not> has_schema (PDict [(''base'', PStr ''USD''), (''rates'', PDict [])])"
    by simp
  have b: "\<exists>m. get_exchange_rates
             (world_of (Inr (respond 200 (PDict [(''base'', PStr ''USD''), (''rates'', PDict [])]))))
             ''USD'' init
           = (Inr (PNone, PStr (''Error: '' @ m)), init)"
    using malformed_body_is_error
            [of "world_of (Inr (respond 200 (PDict [(''base'', PStr ''USD''), (''rates'', PDict [])])))"
                init "''USD''"
                "respond 200 (PDict [(''base'', PStr ''USD''), (''rates'', PDict [])])"
                "PDict [(''base'', PStr ''USD''), (''rates'', PDict [])]"]
    by (simp add: world_of_def respond_def)
  have c: "get_exchange_rates
        (world_of (Inr \<lparr>status_code = 200, http_error_msg = [],
                        json_result = Inl (Exn ValueError ''Expecting value: line 1 column 1 (char 0)'')\<rparr>))
        ''USD'' init
       = (Inr (PNone, PStr ''Error: Expecting value: line 1 column 1 (char 0)''), init)"
    using malformed_body_is_error
            [of "world_of (Inr \<lparr>status_code = 200, http_error_msg = [],
                        json_result = Inl (Exn ValueError ''Expecting value: line 1 column 1 (char 0)'')\<rparr>)"
                init "''USD''"
                "\<lparr>status_code = 200, http_error_msg = [],
                        json_result = Inl (Exn ValueError ''Expecting value: line 1 column 1 (char 0)'')\<rparr>"
                _ ValueError "''Expecting value: line 1 column 1 (char 0)''"]
    by (simp add: world_of_def)
  show ?thesis
    using a b c by blast
qed

text \<open>
  As stated, C3 fails for a 200 response whose body is not JSON, with a library that
  raises \<^verbatim>\<open>requests.exceptions.JSONDecodeError\<close>: the first \<^verbatim>\<open>except\<close> clause takes it,
  and the message is a \<^verbatim>\<open>Network error: \<close>.
\<close>

theorem not_json_counterexample:
  "status_code not_json = 200
   \<and> get_exchange_rates (world_of (Inr not_json)) ''USD'' init
       = (Inr (PNone, PStr ''Network error: Expecting value: line 1 column 1 (char 0)''), init)
   \<and> classify (PStr ''Network error: Expecting value: line 1 column 1 (char 0)'') = Some NetworkError"
  by (simp add: eval_defs not_json_def)

text \<open>
  C5 (as amended). For every base, whenever the response has a status outside 400 to 599
  and its JSON is an object with \<^verbatim>\<open>base\<close>, \<^verbatim>\<open>date\<close> and \<^verbatim>\<open>rates\<close>,
  \<^verbatim>\<open>get_exchange_rates\<close> returns a snapshot whose \<^verbatim>\<open>rates\<close> is the provider's value as
  it came, whatever that value is: nothing is validated. When the faults of the transport
  are instances of \<^verbatim>\<open>Exception\<close>, the only other outcome is no snapshot and a message
  classified as NetworkError or ParseError.
\<close>

theorem snapshot_rates_are_the_providers:
  "(requests_get w (rates_request self base) = Inr resp
      \<and> \<not> (400 \<le> status_code resp \<and> status_code resp < 600)
      \<and> json_result resp = Inr data
      \<and> subscript data ''base'' = Inr b
      \<and> subscript data ''date'' = Inr d
      \<and> subscript data ''rates'' = Inr rs \<longrightarrow>
        get_exchange_rates w base self =
          (Inr (PDict [(''base'', b), (''date'', d),
                       (''timestamp'', PStr (now_text w)), (''rates'', rs)], PNone), self)
        \<and> subscript (PDict [(''base'', b), (''date'', d),
                             (''timestamp'', PStr (now_text w)), (''rates'', rs)]) ''rates''
            = Inr rs)
   \<and> (faults_are_Exceptions (requests_get w (rates_request self base)) \<longrightarrow>
       (\<exists>resp data b d rs.
            requests_get w (rates_request self base) = Inr resp
          \<and> \<not> (400 \<le> status_code resp \<and> status_code resp < 600)
          \<and> json_result resp = Inr data
          \<and> subscript data ''base'' = Inr b
          \<and> subscript data ''date'' = Inr d
          \<and> subscript data ''rates'' = Inr rs
          \<and> get_exchange_rates w base self =
              (Inr (PDict [(''base'', b), (''date'', d),
                           (''timestamp'', PStr (now_text w)), (''rates'', rs)], PNone), self))
       \<or> (\<exists>m. get_exchange_rates w base self = (Inr (PNone, PStr m), self)
              \<and> (classify (PStr m) = Some NetworkError \<or> classify (PStr m) = Some ParseError)))"
proof (intro conjI impI)
  assume a: "requests_get w (rates_request self base) = Inr resp
      \<and> \<not> (400 \<le> status_code resp \<and> status_code resp < 600)
      \<and> json_result resp = Inr data
      \<and> subscript data ''base'' = Inr b
      \<and> subscript data ''date'' = Inr d
      \<and> subscript data ''rates'' = Inr rs"
  then show "get_exchange_rates w base self =
          (Inr (PDict [(''base'', b), (''date'', d),
                       (''timestamp'', PStr (now_text w)), (''rates'', rs)], PNone), self)"
    using get_exchange_rates_returns [of w self base resp data b d rs] by simp
  show "subscript (PDict [(''base'', b), (''date'', d),
                          (''timestamp'', PStr (now_text w)), (''rates'', rs)]) ''rates''
          = Inr rs"
    by simp
next
  assume "faults_are_Exceptions (requests_get w (rates_request self base))"
  from get_exchange_rates_outcome [OF this]
  consider
    (ok) "\<exists>resp data b d rs.
            requests_get w (rates_request self base) = Inr resp
          \<and> \<not> (400 \<le> status_code resp \<and> status_code resp < 600)
          \<and> json_result resp = Inr data
          \<and> subscript data ''base'' = Inr b
          \<and> subscript data ''date'' = Inr d
          \<and> subscript data ''rates'' = Inr rs
          \<and> get_exchange_rates w base self =
              (Inr (PDict [(''base'', b), (''date'', d),
                           (''timestamp'', PStr (now_text w)), (''rates'', rs)], PNone), self)"
  | (net) m where "get_exchange_rates w base self =
                     (Inr (PNone, PStr (''Network error: '' @ m)), self)"
  | (gen) m where "get_exchange_rates w base self = (Inr (PNone, PStr (''Error: '' @ m)), self)"
    by blast
  then show "(\<exists>resp data b d rs.
            requests_get w (rates_request self base) = Inr resp
          \<and> \<not> (400 \<le> status_code resp \<and> status_code resp < 600)
          \<and> json_result resp = Inr data
          \<and> subscript data ''base'' = Inr b
          \<and> subscript data ''date'' = Inr d
          \<and> subscript data ''rates'' = Inr rs
          \<and> get_exchange_rates w base self =
              (Inr (PDict [(''base'', b), (''date'', d),
                           (''timestamp'', PStr (now_text w)), (''rates'', rs)], PNone), self))
       \<or> (\<exists>m. get_exchange_rates w base self = (Inr (PNone, PStr m), self)
              \<and> (classify (PStr m) = Some NetworkError \<or> classify (PStr m) = Some ParseError))"
  proof cases
    case ok
    then show ?thesis by blast
  next
    case net
    then show ?thesis using classify_prefix(1) [of m] by blast
  next
    case gen
    then show ?thesis using classify_prefix(2) [of m] by blast
  qed
qed

theorem snapshot_rates_are_the_providers_witness:
  "faults_are_Exceptions (Inr (respond 200 usd_body))
   \<and> subscript usd_body ''rates''
       = Inr (PDict [(''EUR'', PFloat (Fin 0.92)), (''GBP'', PFloat (Fin 0.79))])
   \<and> get_exchange_rates (world_of (Inr (respond 200 usd_body))) ''USD'' init
       = (Inr (usd_snapshot, PNone), init)
   \<and> subscript usd_snapshot ''rates''
       = Inr (PDict [(''EUR'', PFloat (Fin 0.92)), (''GBP'', PFloat (Fin 0.79))])
   \<and> \<not> (\<exists>m. get_exchange_rates (world_of (Inr (respond 200 usd_body))) ''USD'' init
               = (Inr (PNone, PStr m), init))"
proof -
  let ?w = "world_of (Inr (respond 200 usd_body))"
  let ?rs = "PDict [(''EUR'', PFloat (Fin 0.92)), (''GBP'', PFloat (Fin 0.79))]"
  have g: "requests_get (world_of k) q = k" "now_text (world_of k) = ''2024-01-15 12:00:00''" for k q
    by (simp_all add: world_of_def)
  have a: "faults_are_Exceptions (Inr (respond 200 usd_body))"
    by (simp add: faults_are_Exceptions_def respond_def)
  have b: "subscript usd_body ''rates'' = Inr ?rs"
    by (simp add: usd_body_def)
  note t = snapshot_rates_are_the_providers
             [where w = ?w and self = init and base = "''USD''" and resp = "respond 200 usd_body"
                and data = usd_body and b = "PStr ''USD''" and d = "PStr ''2024-01-15''"
                and rs = ?rs]
  have c: "get_exchange_rates ?w ''USD'' init = (Inr (usd_snapshot, PNone), init)"
    using t by (simp add: g respond_def usd_body_def usd_snapshot_def)
  have d: "subscript usd_snapshot ''rates'' = Inr ?rs"
    using t by (simp add: g respond_def usd_body_def usd_snapshot_def)
  have e: "\<not> (\<exists>m. get_exchange_rates ?w ''USD'' init = (Inr (PNone, PStr m), init))"
    using t a c by (simp add: g usd_snapshot_def)
  show ?thesis
    using a b c d e by blast
qed

text \<open>
  As stated, C5 fails: a 200 response whose rates are \<^verbatim>\<open>{"EUR": 0}\<close> yields a snapshot
  with the rate 0.
\<close>

theorem zero_rate_counterexample:
  "get_exchange_rates (world_of (Inr (respond 200 zero_rate_body))) ''USD'' init
     = (Inr (PDict [(''base'', PStr ''USD''), (''date'', PStr ''2024-01-15''),
                    (''timestamp'', PStr ''2024-01-15 12:00:00''),
                    (''rates'', PDict [(''EUR'', PInt 0)])], PNone), init)
   \<and> \<not> rates_finite_positive (PDict [(''EUR'', PInt 0)])"
  by (simp add: eval_defs zero_rate_body_def)

text \<open>
  C6 (as amended). Both requests are issued with \<^verbatim>\<open>timeout=10\<close>. When the library raises
  \<^verbatim>\<open>Timeout\<close>, \<^verbatim>\<open>get_exchange_rates\<close> returns a message classified as NetworkError and
  \<^verbatim>\<open>get_conversion\<close> a message classified as ConversionError, each carrying the text of the
  timeout.
\<close>

theorem timeout_is_ten_and_classified:
  "timeout (rates_request self base) = Some 10
   \<and> timeout (conversion_request w amount f t) = Some 10
   \<and> (requests_get w (rates_request self base) = Inl (Exn Timeout m) \<longrightarrow>
        get_exchange_rates w base self = (Inr (PNone, PStr (''Network error: '' @ m)), self)
        \<and> classify (PStr (''Network error: '' @ m)) = Some NetworkError)
   \<and> (requests_get w (conversion_request w amount f t) = Inl (Exn Timeout m) \<longrightarrow>
        get_conversion w amount f t self = (Inr (PNone, PStr (''Conversion error: '' @ m)), self)
        \<and> classify (PStr (''Conversion error: '' @ m)) = Some ConversionError)"
proof (intro conjI impI)
  show "timeout (rates_request self base) = Some 10"
    by (simp add: rates_request_def)
  show "timeout (conversion_request w amount f t) = Some 10"
    by (simp add: conversion_request_def)
next
  assume "requests_get w (rates_request self base) = Inl (Exn Timeout m)"
  then show "get_exchange_rates w base self = (Inr (PNone, PStr (''Network error: '' @ m)), self)"
    using get_exchange_rates_get_raises [of w self base Timeout m] by simp
next
  assume "requests_get w (conversion_request w amount f t) = Inl (Exn Timeout m)"
  then have "conversion_body w amount f t = Inl (Exn Timeout m)"
    by (simp add: conversion_body_unfold)
  then show "get_conversion w amount f t self = (Inr (PNone, PStr (''Conversion error: '' @ m)), self)"
    using get_conversion_raises [of w amount f t "Exn Timeout m" self] by simp
next
  show "classify (PStr (''Network error: '' @ m)) = Some NetworkError"
    by (rule classify_prefix)
  show "classify (PStr (''Conversion error: '' @ m)) = Some ConversionError"
    by (rule classify_prefix)
qed

theorem timeout_is_ten_and_classified_witness:
  "requests_get timed_out (rates_request init ''USD'')
     = Inl (Exn Timeout ''Read timed out. (read timeout=10)'')
   \<and> get_exchange_rates timed_out ''USD'' init
     = (Inr (PNone, PStr ''Network error: Read timed out. (read timeout=10)''), init)
   \<and> get_conversion timed_out (PFloat (Fin 100)) ''USD'' ''EUR'' init
     = (Inr (PNone, PStr ''Conversion error: Read timed out. (read timeout=10)''), init)"
proof -
  have g: "requests_get timed_out r = Inl (Exn Timeout ''Read timed out. (read timeout=10)'')" for r
    by (simp add: timed_out_def world_of_def)
  show ?thesis
    using timeout_is_ten_and_classified
            [of init "''USD''" timed_out "PFloat (Fin 100)" "''USD''" "''EUR''"
                "''Read timed out. (read timeout=10)''"]
    by (simp add: g)
qed

text \<open>
  As stated, C6 fails for the conversion request: its timeout is a
  \<^verbatim>\<open>Conversion error: \<close>, not a NetworkError.
\<close>

theorem conversion_timeout_counterexample:
  "get_conversion timed_out (PFloat (Fin 100)) ''USD'' ''EUR'' init
     = (Inr (PNone, PStr ''Conversion error: Read timed out. (read timeout=10)''), init)
   \<and> classify (PStr ''Conversion error: Read timed out. (read timeout=10)'') = Some ConversionError
   \<and> classify (PStr ''Conversion error: Read timed out. (read timeout=10)'') \<noteq> Some NetworkError"
  by (simp add: eval_defs timed_out_def)

text \<open>
  C7 (as amended). On the conversion path every failure yields no result and one message
  with the prefix \<^verbatim>\<open>Conversion error: \<close>, whatever its class: an exception of
  \<^verbatim>\<open>requests.get\<close>, a status from 400 to 599, a body that is not JSON, an answer
  that has no \<^verbatim>\<open>rates\<close> or is not an object, a \<^verbatim>\<open>rates\<close> that is not a mapping, and
  a \<^verbatim>\<open>rates\<close> without the target currency. When the faults of the transport are
  instances of \<^verbatim>\<open>Exception\<close>, every outcome other than the extraction of the target's
  entry from a response with a status outside 400 to 599 is such a message.
\<close>

theorem conversion_failure_is_conversion_error:
  "(requests_get w (conversion_request w amount f t) = Inl (Exn c m) \<and> is_Exception c \<longrightarrow>
      get_conversion w amount f t self = (Inr (PNone, PStr (''Conversion error: '' @ m)), self))
   \<and> (requests_get w (conversion_request w amount f t) = Inr resp
        \<and> 400 \<le> status_code resp \<and> status_code resp < 600 \<longrightarrow>
      get_conversion w amount f t self =
        (Inr (PNone, PStr (''Conversion error: '' @ http_error_msg resp)), self))
   \<and> (requests_get w (conversion_request w amount f t) = Inr resp
        \<and> \<not> (400 \<le> status_code resp \<and> status_code resp < 600)
        \<and> json_result resp = Inl (Exn c m) \<and> is_Exception c \<longrightarrow>
      get_conversion w amount f t self = (Inr (PNone, PStr (''Conversion error: '' @ m)), self))
   \<and> (requests_get w (conversion_request w amount f t) = Inr resp
        \<and> \<not> (400 \<le> status_code resp \<and> status_code resp < 600)
        \<and> json_result resp = Inr data \<and> subscript data ''rates'' = Inl e \<longrightarrow>
      get_conversion w amount f t self = (Inr (PNone, PStr (''Conversion error: '' @ str_exn e)), self))
   \<and> (requests_get w (conversion_request w amount f t) = Inr resp
        \<and> \<not> (400 \<le> status_code resp \<and> status_code resp < 600)
        \<and> json_result resp = Inr data \<and> subscript data ''rates'' = Inr rates
        \<and> subscript rates t = Inl e \<longrightarrow>
      get_conversion w amount f t self = (Inr (PNone, PStr (''Conversion error: '' @ str_exn e)), self))
   \<and> (requests_get w (conversion_request w amount f t) = Inr resp
        \<and> \<not> (400 \<le> status_code resp \<and> status_code resp < 600)
        \<and> json_result resp = Inr data \<and> subscript data ''rates'' = Inr (PDict kvs)
        \<and> map_of kvs t = None \<longrightarrow>
      get_conversion w amount f t self =
        (Inr (PNone, PStr (''Conversion error: '' @ py_repr_str t)), self))
   \<and> (faults_are_Exceptions (requests_get w (conversion_request w amount f t))
        \<and> \<not> (\<exists>resp data rates v.
                  requests_get w (conversion_request w amount f t) = Inr resp
                \<and> \<not> (400 \<le> status_code resp \<and> status_code resp < 600)
                \<and> json_result resp = Inr data
                \<and> subscript data ''rates'' = Inr rates
                \<and> subscript rates t = Inr v) \<longrightarrow>
      (\<exists>m'. get_conversion w amount f t self =
               (Inr (PNone, PStr (''Conversion error: '' @ m')), self)))
   \<and> classify (PStr (''Conversion error: '' @ m)) = Some ConversionError"
proof (intro conjI impI)
  assume "requests_get w (conversion_request w amount f t) = Inl (Exn c m) \<and> is_Exception c"
  then show "get_conversion w amount f t self = (Inr (PNone, PStr (''Conversion error: '' @ m)), self)"
    using get_conversion_get_raises [of w amount f t c m self] by simp
next
  assume "requests_get w (conversion_request w amount f t) = Inr resp
        \<and> 400 \<le> status_code resp \<and> status_code resp < 600"
  then show "get_conversion w amount f t self =
        (Inr (PNone, PStr (''Conversion error: '' @ http_error_msg resp)), self)"
    using get_conversion_status [of w amount f t resp self] by simp
next
  assume "requests_get w (conversion_request w amount f t) = Inr resp
        \<and> \<not> (400 \<le> status_code resp \<and> status_code resp < 600)
        \<and> json_result resp = Inl (Exn c m) \<and> is_Exception c"
  then show "get_conversion w amount f t self = (Inr (PNone, PStr (''Conversion error: '' @ m)), self)"
    using get_conversion_json_raises [of w amount f t resp c m self] by simp
next
  assume "requests_get w (conversion_request w amount f t) = Inr resp
        \<and> \<not> (400 \<le> status_code resp \<and> status_code resp < 600)
        \<and> json_result resp = Inr data \<and> subscript data ''rates'' = Inl e"
  then show "get_conversion w amount f t self =
      (Inr (PNone, PStr (''Conversion error: '' @ str_exn e)), self)"
    using get_conversion_no_rates [of w amount f t resp data e self] by simp
next
  assume "requests_get w (conversion_request w amount f t) = Inr resp
        \<and> \<not> (400 \<le> status_code resp \<and> status_code resp < 600)
        \<and> json_result resp = Inr data \<and> subscript data ''rates'' = Inr rates
        \<and> subscript rates t = Inl e"
  then show "get_conversion w amount f t self =
      (Inr (PNone, PStr (''Conversion error: '' @ str_exn e)), self)"
    using get_conversion_no_entry [of w amount f t resp data rates e self] by simp
next
  assume a: "requests_get w (conversion_request w amount f t) = Inr resp
        \<and> \<not> (400 \<le> status_code resp \<and> status_code resp < 600)
        \<and> json_result resp = Inr data \<and> subscript data ''rates'' = Inr (PDict kvs)
        \<and> map_of kvs t = None"
  then have "subscript (PDict kvs) t = Inl (Exn KeyError (py_repr_str t))"
    by simp
  then show "get_conversion w amount f t self =
        (Inr (PNone, PStr (''Conversion error: '' @ py_repr_str t)), self)"
    using a get_conversion_no_entry
            [of w amount f t resp data "PDict kvs" "Exn KeyError (py_repr_str t)" self]
    by simp
next
  assume "faults_are_Exceptions (requests_get w (conversion_request w amount f t))
        \<and> \<not> (\<exists>resp data rates v.
                  requests_get w (conversion_request w amount f t) = Inr resp
                \<and> \<not> (400 \<le> status_code resp \<and> status_code resp < 600)
                \<and> json_result resp = Inr data
                \<and> subscript data ''rates'' = Inr rates
                \<and> subscript rates t = Inr v)"
  then show "\<exists>m'. get_conversion w amount f t self =
               (Inr (PNone, PStr (''Conversion error: '' @ m')), self)"
    using get_conversion_failure [of w amount f t self] by blast
next
  show "classify (PStr (''Conversion error: '' @ m)) = Some ConversionError"
    by (rule classify_prefix)
qed

theorem conversion_failure_is_conversion_error_witness:
  "get_conversion unreachable (PFloat (Fin 100)) ''USD'' ''EUR'' init
     = (Inr (PNone, PStr ''Conversion error: Name or service not known''), init)
   \<and> get_conversion (world_of (Inr unavailable)) (PFloat (Fin 100)) ''USD'' ''EUR'' init
     = (Inr (PNone, PStr (''Conversion error: '' @ http_error_msg unavailable)), init)
   \<and> get_conversion (world_of (Inr not_json)) (PFloat (Fin 100)) ''USD'' ''EUR'' init
     = (Inr (PNone, PStr ''Conversion error: Expecting value: line 1 column 1 (char 0)''), init)
   \<and> get_conversion (world_of (Inr (respond 200 (PList [])))) (PFloat (Fin 100)) ''USD'' ''EUR'' init
     = (Inr (PNone, PStr ''Conversion error: list indices must be integers or slices, not str''), init)
   \<and> get_conversion (world_of (Inr (respond 200 (PDict [(''rates'', PInt 5)]))))
       (PFloat (Fin 100)) ''USD'' ''EUR'' init
     = (Inr (PNone, PStr (''Conversion error: '' @ CHR 0x27 # ''int'' @ CHR 0x27
                            # '' object is not subscriptable'')), init)
   \<and> get_conversion (world_of (Inr (respond 200 no_rate_body))) (PFloat (Fin 100)) ''USD'' ''EUR'' init
     = (Inr (PNone, PStr (''Conversion error: '' @ CHR 0x27 # ''EUR'' @ [CHR 0x27])), init)
   \<and> faults_are_Exceptions (Inr (respond 200 (PDict [(''rates'', PInt 5)])))
   \<and> (\<exists>m'. get_conversion (world_of (Inr (respond 200 (PDict [(''rates'', PInt 5)]))))
              (PFloat (Fin 100)) ''USD'' ''EUR'' init
            = (Inr (PNone, PStr (''Conversion error: '' @ m')), init))"
proof -
  let ?five = "respond 200 (PDict [(''rates'', PInt 5)])"
  have g: "requests_get (world_of k) q = k" for k q
    by (simp add: world_of_def)
  have a: "get_conversion unreachable (PFloat (Fin 100)) ''USD'' ''EUR'' init
     = (Inr (PNone, PStr ''Conversion error: Name or service not known''), init)"
    using conversion_failure_is_conversion_error
            [where w = unreachable and amount = "PFloat (Fin 100)" and f = "''USD''" and t = "''EUR''"
               and c = ConnectionError and m = "''Name or service not known''" and self = init]
    by (simp add: unreachable_def g)
  have b: "get_conversion (world_of (Inr unavailable)) (PFloat (Fin 100)) ''USD'' ''EUR'' init
     = (Inr (PNone, PStr (''Conversion error: '' @ http_error_msg unavailable)), init)"
    using conversion_failure_is_conversion_error
            [where w = "world_of (Inr unavailable)" and amount = "PFloat (Fin 100)"
               and f = "''USD''" and t = "''EUR''" and self = init and resp = unavailable]
    by (simp add: g unavailable_def)
  have c: "get_conversion (world_of (Inr not_json)) (PFloat (Fin 100)) ''USD'' ''EUR'' init
     = (Inr (PNone, PStr ''Conversion error: Expecting value: line 1 column 1 (char 0)''), init)"
    using conversion_failure_is_conversion_error
            [where w = "world_of (Inr not_json)" and amount = "PFloat (Fin 100)"
               and f = "''USD''" and t = "''EUR''" and c = RequestsJSONDecodeError
               and m = "''Expecting value: line 1 column 1 (char 0)''" and self = init
               and resp = not_json]
    by (simp add: g not_json_def)
  have d: "get_conversion (world_of (Inr (respond 200 (PList [])))) (PFloat (Fin 100)) ''USD'' ''EUR'' init
     = (Inr (PNone, PStr ''Conversion error: list indices must be integers or slices, not str''), init)"
    using conversion_failure_is_conversion_error
            [where w = "world_of (Inr (respond 200 (PList [])))" and amount = "PFloat (Fin 100)"
               and f = "''USD''" and t = "''EUR''" and self = init
               and resp = "respond 200 (PList [])" and data = "PList []"
               and e = "Exn TypeError ''list indices must be integers or slices, not str''"]
    by (simp add: g respond_def)
  have e: "get_conversion (world_of (Inr ?five)) (PFloat (Fin 100)) ''USD'' ''EUR'' init
     = (Inr (PNone, PStr (''Conversion error: '' @ CHR 0x27 # ''int'' @ CHR 0x27
                            # '' object is not subscriptable'')), init)"
    using conversion_failure_is_conversion_error
            [where w = "world_of (Inr ?five)" and amount = "PFloat (Fin 100)"
               and f = "''USD''" and t = "''EUR''" and self = init
               and resp = ?five and data = "PDict [(''rates'', PInt 5)]" and rates = "PInt 5"
               and e = "Exn TypeError (CHR 0x27 # ''int'' @ CHR 0x27 # '' object is not subscriptable'')"]
    by (simp add: g respond_def)
  have f: "get_conversion (world_of (Inr (respond 200 no_rate_body))) (PFloat (Fin 100)) ''USD'' ''EUR'' init
     = (Inr (PNone, PStr (''Conversion error: '' @ CHR 0x27 # ''EUR'' @ [CHR 0x27])), init)"
    using conversion_failure_is_conversion_error
            [where w = "world_of (Inr (respond 200 no_rate_body))" and amount = "PFloat (Fin 100)"
               and f = "''USD''" and t = "''EUR''" and self = init
               and resp = "respond 200 no_rate_body" and data = no_rate_body and kvs = "[]"]
    by (simp add: g respond_def no_rate_body_def py_repr_str_def repr_char_def py_printable_def Let_def)
  have fa: "faults_are_Exceptions (Inr ?five)"
    by (simp add: faults_are_Exceptions_def respond_def)
  have no: "\<not> (\<exists>resp data rates v.
                  requests_get (world_of (Inr ?five))
                    (conversion_request (world_of (Inr ?five)) (PFloat (Fin 100)) ''USD'' ''EUR'')
                    = Inr resp
                \<and> \<not> (400 \<le> status_code resp \<and> status_code resp < 600)
                \<and> json_result resp = Inr data
                \<and> subscript data ''rates'' = Inr rates
                \<and> subscript rates ''EUR'' = Inr v)"
    by (auto simp: g respond_def)
  have h: "\<exists>m'. get_conversion (world_of (Inr ?five)) (PFloat (Fin 100)) ''USD'' ''EUR'' init
            = (Inr (PNone, PStr (''Conversion error: '' @ m')), init)"
    using conversion_failure_is_conversion_error
            [where w = "world_of (Inr ?five)" and amount = "PFloat (Fin 100)"
               and f = "''USD''" and t = "''EUR''" and self = init] fa no
    by (simp only: g) blast
  show ?thesis
    using a b c d e f fa h by simp
qed

text \<open>
  As stated, C7 fails for a status that is neither 2xx nor one \<^verbatim>\<open>raise_for_status\<close> raises
  for: a response with status 300 and a well-formed body yields the converted amount and
  no error.
\<close>

theorem conversion_redirect_counterexample:
  "status_code (respond 300 eur_body) = 300
   \<and> get_conversion (world_of (Inr (respond 300 eur_body))) (PFloat (Fin 100)) ''USD'' ''EUR'' init
       = (Inr (PFloat (Fin 92), PNone), init)"
  by (simp add: eval_defs eur_body_def)

section \<open>Converting a currency into itself\<close>

text \<open>
  C8 (as amended). \<^verbatim>\<open>get_conversion\<close> has no case for equal currencies: with
  \<^verbatim>\<open>from_currency == to_currency\<close> it sends the request for that pair and returns the
  provider's entry for the currency unchanged, and every result other than \<^verbatim>\<open>None\<close> is
  such an entry, so the result equals the amount only when the provider answers with the
  amount. When the request fails or the answer has no entry for the currency, it returns
  a \<^verbatim>\<open>Conversion error: \<close> and no result.
\<close>

theorem same_currency_is_delegated:
  "url (conversion_request w amount x x) =
     ''https://api.frankfurter.app/latest?amount='' @ str_amount w amount
       @ ''&from='' @ x @ ''&to='' @ x
   \<and> (requests_get w (conversion_request w amount x x) = Inr resp
      \<and> \<not> (400 \<le> status_code resp \<and> status_code resp < 600)
      \<and> json_result resp = Inr data
      \<and> subscript data ''rates'' = Inr rates
      \<and> subscript rates x = Inr v \<longrightarrow>
        get_conversion w amount x x self = (Inr (v, PNone), self))
   \<and> (fst (get_conversion w amount x x self) = Inr (r, e) \<and> r \<noteq> PNone \<longrightarrow>
        e = PNone
        \<and> (\<exists>resp data rates.
               requests_get w (conversion_request w amount x x) = Inr resp
             \<and> \<not> (400 \<le> status_code resp \<and> status_code resp < 600)
             \<and> json_result resp = Inr data
             \<and> subscript data ''rates'' = Inr rates
             \<and> subscript rates x = Inr r))
   \<and> (requests_get w (conversion_request w amount x x) = Inl (Exn c m) \<and> is_Exception c \<longrightarrow>
        get_conversion w amount x x self = (Inr (PNone, PStr (''Conversion error: '' @ m)), self))
   \<and> (requests_get w (conversion_request w amount x x) = Inr resp
      \<and> \<not> (400 \<le> status_code resp \<and> status_code resp < 600)
      \<and> json_result resp = Inr data
      \<and> subscript data ''rates'' = Inr (PDict kvs)
      \<and> map_of kvs x = None \<longrightarrow>
        get_conversion w amount x x self =
          (Inr (PNone, PStr (''Conversion error: '' @ py_repr_str x)), self))
   \<and> (faults_are_Exceptions (requests_get w (conversion_request w amount x x))
      \<and> \<not> (\<exists>resp data rates v.
                requests_get w (conversion_request w amount x x) = Inr resp
              \<and> \<not> (400 \<le> status_code resp \<and> status_code resp < 600)
              \<and> json_result resp = Inr data
              \<and> subscript data ''rates'' = Inr rates
              \<and> subscript rates x = Inr v) \<longrightarrow>
        (\<exists>m'. get_conversion w amount x x self =
                 (Inr (PNone, PStr (''Conversion error: '' @ m')), self)))"
proof (intro conjI impI)
  show "url (conversion_request w amount x x) =
     ''https://api.frankfurter.app/latest?amount='' @ str_amount w amount
       @ ''&from='' @ x @ ''&to='' @ x"
    by (simp add: conversion_request_def)
next
  assume "requests_get w (conversion_request w amount x x) = Inr resp
      \<and> \<not> (400 \<le> status_code resp \<and> status_code resp < 600)
      \<and> json_result resp = Inr data
      \<and> subscript data ''rates'' = Inr rates
      \<and> subscript rates x = Inr v"
  then show "get_conversion w amount x x self = (Inr (v, PNone), self)"
    using get_conversion_returns [of w amount x x resp data rates v self] by simp
next
  assume a: "fst (get_conversion w amount x x self) = Inr (r, e) \<and> r \<noteq> PNone"
  from get_conversion_value [of w amount x x self r e] a
  show "e = PNone" by simp
  from get_conversion_value [of w amount x x self r e] a
  show "\<exists>resp data rates.
               requests_get w (conversion_request w amount x x) = Inr resp
             \<and> \<not> (400 \<le> status_code resp \<and> status_code resp < 600)
             \<and> json_result resp = Inr data
             \<and> subscript data ''rates'' = Inr rates
             \<and> subscript rates x = Inr r"
    by simp
next
  assume "requests_get w (conversion_request w amount x x) = Inl (Exn c m) \<and> is_Exception c"
  then show "get_conversion w amount x x self =
      (Inr (PNone, PStr (''Conversion error: '' @ m)), self)"
    using get_conversion_get_raises [of w amount x x c m self] by simp
next
  assume a: "requests_get w (conversion_request w amount x x) = Inr resp
      \<and> \<not> (400 \<le> status_code resp \<and> status_code resp < 600)
      \<and> json_result resp = Inr data
      \<and> subscript data ''rates'' = Inr (PDict kvs)
      \<and> map_of kvs x = None"
  then have "subscript (PDict kvs) x = Inl (Exn KeyError (py_repr_str x))"
    by simp
  then show "get_conversion w amount x x self =
          (Inr (PNone, PStr (''Conversion error: '' @ py_repr_str x)), self)"
    using a get_conversion_no_entry
            [of w amount x x resp data "PDict kvs" "Exn KeyError (py_repr_str x)" self]
    by simp
next
  assume "faults_are_Exceptions (requests_get w (conversion_request w amount x x))
      \<and> \<not> (\<exists>resp data rates v.
                requests_get w (conversion_request w amount x x) = Inr resp
              \<and> \<not> (400 \<le> status_code resp \<and> status_code resp < 600)
              \<and> json_result resp = Inr data
              \<and> subscript data ''rates'' = Inr rates
              \<and> subscript rates x = Inr v)"
  then show "\<exists>m'. get_conversion w amount x x self =
                 (Inr (PNone, PStr (''Conversion error: '' @ m')), self)"
    using get_conversion_failure [of w amount x x self] by blast
qed

theorem same_currency_is_delegated_witness:
  "get_conversion (world_of (Inr (respond 200 (PDict [(''rates'', PDict [(''USD'', PFloat (Fin 100))])]))))
     (PFloat (Fin 100)) ''USD'' ''USD'' init
     = (Inr (PFloat (Fin 100), PNone), init)
   \<and> (\<exists>resp data rates.
          requests_get (world_of (Inr (respond 200 (PDict [(''rates'', PDict [(''USD'', PFloat (Fin 100))])]))))
            (conversion_request
               (world_of (Inr (respond 200 (PDict [(''rates'', PDict [(''USD'', PFloat (Fin 100))])]))))
               (PFloat (Fin 100)) ''USD'' ''USD'') = Inr resp
        \<and> json_result resp = Inr data
        \<and> subscript data ''rates'' = Inr rates
        \<and> subscript rates ''USD'' = Inr (PFloat (Fin 100)))
   \<and> get_conversion unreachable (PFloat (Fin 100)) ''USD'' ''USD'' init
       = (Inr (PNone, PStr ''Conversion error: Name or service not known''), init)
   \<and> get_conversion (world_of (Inr (respond 200 no_rate_body))) (PFloat (Fin 100)) ''USD'' ''USD'' init
       = (Inr (PNone, PStr (''Conversion error: '' @ CHR 0x27 # ''USD'' @ [CHR 0x27])), init)
   \<and> faults_are_Exceptions (Inr (respond 200 no_rate_body))
   \<and> (\<exists>m'. get_conversion (world_of (Inr (respond 200 no_rate_body))) (PFloat (Fin 100))
              ''USD'' ''USD'' init
            = (Inr (PNone, PStr (''Conversion error: '' @ m')), init))"
proof -
  let ?body = "PDict [(''rates'', PDict [(''USD'', PFloat (Fin 100))])]"
  let ?w = "world_of (Inr (respond 200 ?body))"
  let ?n = "world_of (Inr (respond 200 no_rate_body))"
  have g: "requests_get (world_of k) q = k" for k q
    by (simp add: world_of_def)
  note t = same_currency_is_delegated
             [where w = ?w and amount = "PFloat (Fin 100)" and x = "''USD''"
                and resp = "respond 200 ?body" and data = ?body
                and rates = "PDict [(''USD'', PFloat (Fin 100))]" and v = "PFloat (Fin 100)"
                and self = init and r = "PFloat (Fin 100)" and e = PNone]
  have a: "get_conversion ?w (PFloat (Fin 100)) ''USD'' ''USD'' init
             = (Inr (PFloat (Fin 100), PNone), init)"
    using t by (simp add: g respond_def)
  have b: "\<exists>resp data rates.
          requests_get ?w (conversion_request ?w (PFloat (Fin 100)) ''USD'' ''USD'') = Inr resp
        \<and> json_result resp = Inr data
        \<and> subscript data ''rates'' = Inr rates
        \<and> subscript rates ''USD'' = Inr (PFloat (Fin 100))"
  proof -
    have "fst (get_conversion ?w (PFloat (Fin 100)) ''USD'' ''USD'' init)
            = Inr (PFloat (Fin 100), PNone) \<and> PFloat (Fin 100) \<noteq> PNone"
      using a by simp
    with t have "\<exists>resp data rates.
          requests_get ?w (conversion_request ?w (PFloat (Fin 100)) ''USD'' ''USD'') = Inr resp
        \<and> \<not> (400 \<le> status_code resp \<and> status_code resp < 600)
        \<and> json_result resp = Inr data
        \<and> subscript data ''rates'' = Inr rates
        \<and> subscript rates ''USD'' = Inr (PFloat (Fin 100))"
      by blast
    then show ?thesis by blast
  qed
  have c: "get_conversion unreachable (PFloat (Fin 100)) ''USD'' ''USD'' init
       = (Inr (PNone, PStr ''Conversion error: Name or service not known''), init)"
    using same_currency_is_delegated
            [where w = unreachable and amount = "PFloat (Fin 100)" and x = "''USD''"
               and c = ConnectionError and m = "''Name or service not known''" and self = init]
    by (simp add: g unreachable_def)
  have d: "get_conversion ?n (PFloat (Fin 100)) ''USD'' ''USD'' init
       = (Inr (PNone, PStr (''Conversion error: '' @ CHR 0x27 # ''USD'' @ [CHR 0x27])), init)"
    using same_currency_is_delegated
            [where w = ?n and amount = "PFloat (Fin 100)" and x = "''USD''" and self = init
               and resp = "respond 200 no_rate_body" and data = no_rate_body and kvs = "[]"]
    by (simp add: g respond_def no_rate_body_def py_repr_str_def repr_char_def py_printable_def Let_def)
  have fa: "faults_are_Exceptions (Inr (respond 200 no_rate_body))"
    by (simp add: faults_are_Exceptions_def respond_def)
  have no: "\<not> (\<exists>resp data rates v.
                requests_get ?n (conversion_request ?n (PFloat (Fin 100)) ''USD'' ''USD'') = Inr resp
              \<and> \<not> (400 \<le> status_code resp \<and> status_code resp < 600)
              \<and> json_result resp = Inr data
              \<and> subscript data ''rates'' = Inr rates
              \<and> subscript rates ''USD'' = Inr v)"
    by (auto simp: g respond_def no_rate_body_def)
  have h: "\<exists>m'. get_conversion ?n (PFloat (Fin 100)) ''USD'' ''USD'' init
            = (Inr (PNone, PStr (''Conversion error: '' @ m')), init)"
    using same_currency_is_delegated
            [where w = ?n and amount = "PFloat (Fin 100)" and x = "''USD''" and self = init] fa no
    by (simp only: g) blast
  show ?thesis
    using a b c d fa h by blast
qed

text \<open>
  As stated, C8 fails: when the provider's rates leave out the base currency, or the
  provider cannot be reached, converting USD into USD yields a
  \<^verbatim>\<open>Conversion error: \<close> and not the amount.
\<close>

theorem same_currency_counterexample:
  "get_conversion (world_of (Inr (respond 200 no_rate_body))) (PFloat (Fin 100)) ''USD'' ''USD'' init
     = (Inr (PNone, PStr (''Conversion error: '' @ CHR 0x27 # ''USD'' @ [CHR 0x27])), init)
   \<and> get_conversion unreachable (PFloat (Fin 100)) ''USD'' ''USD'' init
     = (Inr (PNone, PStr ''Conversion error: Name or service not known''), init)"
  by (simp add: eval_defs no_rate_body_def unreachable_def)

end
